theory Spec2Isabelle
  imports Complex_Main
begin

section \<open>Data model (app/models)\<close>

text \<open>
  The enumerations of \<^verbatim>\<open>app/models/alerts.py\<close>, \<^verbatim>\<open>app/models/inventory.py\<close> and
  \<^verbatim>\<open>app/models/sales.py\<close>, constructor for constructor. \<^verbatim>\<open>AlertStatus\<close> has the four
  members of the source and no other.
\<close>

datatype AlertType = LOW_STOCK | OUT_OF_STOCK | RUSH_HOUR | HIGH_QUEUE | SYSTEM_ERROR | MAINTENANCE

datatype AlertSeverity = LOW | MEDIUM | HIGH | CRITICAL

datatype AlertStatus = ACTIVE | ACKNOWLEDGED | RESOLVED | DISMISSED

datatype StockMovementType = PURCHASE | SALE | ADJUSTMENT | RETURN | DAMAGED | EXPIRED

datatype PaymentMethod = CASH | CARD | MOBILE | OTHER

text \<open>
  The ORM classes as records. Python integers are unbounded, so integer columns are
  \<^typ>\<open>int\<close>; a nullable column is an \<^typ>\<open>'a option\<close>; a timestamp is a number of
  seconds (\<^typ>\<open>int\<close>); a money amount (a Float column) is a \<^typ>\<open>rat\<close>, which no
  statement below computes with. A field whose name several classes share carries the
  class's initials (\<open>p_id\<close>, \<open>il_product_id\<close>, \<open>sm_product_id\<close>, ...). The display
  texts \<^verbatim>\<open>description\<close>, \<^verbatim>\<open>message\<close> and \<^verbatim>\<open>details\<close> are left out: nothing reads them
  back.
\<close>

record Product =
  p_id :: int
  p_sku :: string
  p_name :: string
  min_stock_level :: int
  max_stock_level :: int
  reorder_point :: int
  is_active :: bool
  is_tracked :: bool

record InventoryLevel =
  il_id :: int
  il_product_id :: int
  current_quantity :: int
  reserved_quantity :: int
  available_quantity :: int
  il_location_id :: string

record StockMovement =
  sm_id :: int
  sm_product_id :: int
  movement_type :: StockMovementType
  sm_quantity :: int
  previous_quantity :: int
  new_quantity :: int
  reference_id :: "string option"
  reference_type :: "string option"
  sm_user_id :: "string option"
  sm_notes :: "string option"
  sm_location_id :: string
  sm_created_at :: int

record Alert =
  a_id :: int
  alert_type :: AlertType
  severity :: AlertSeverity
  status :: AlertStatus
  title :: string
  a_product_id :: "int option"
  a_sale_id :: "int option"
  created_by :: "string option"
  acknowledged_by :: "string option"
  resolved_by :: "string option"
  a_created_at :: int
  acknowledged_at :: "int option"
  resolved_at :: "int option"
  expires_at :: "int option"
  is_expired :: bool

record Sale =
  s_id :: int
  transaction_id :: string
  cashier_id :: string
  customer_id :: "string option"
  payment_method :: PaymentMethod
  subtotal :: rat
  tax_amount :: rat
  discount_amount :: rat
  total_amount :: rat
  s_created_at :: int
  completed_at :: "int option"
  s_status :: string
  s_notes :: "string option"

record SaleItem =
  si_id :: int
  si_sale_id :: int
  si_product_id :: int
  product_name :: string
  si_sku :: string
  si_quantity :: int
  unit_price :: rat
  total_price :: rat

text \<open>
  The database: one list of rows per table, in insertion order. A session's pending
  state is a value of the same type; \<open>commit\<close> makes it the stored one.
\<close>

record database =
  products :: "Product list"
  inventory_levels :: "InventoryLevel list"
  stock_movements :: "StockMovement list"
  alerts :: "Alert list"
  sales :: "Sale list"
  sale_items :: "SaleItem list"

text \<open>
  Every \<^verbatim>\<open>raise ValueError(...)\<close> of the services, one constructor per message, and the
  \<^verbatim>\<open>NameError\<close> Python raises when a global name is not bound, and the error of the
  database (PostgreSQL, by \<^verbatim>\<open>app/core/config.py\<close>) on a negative \<^verbatim>\<open>LIMIT\<close>.
\<close>

datatype error =
    SaleHasNoItems
  | ProductNotFoundOrNotTracked int
  | InsufficientStock int
  | ProductNotFound int
  | InvalidPaymentMethod string
  | NameError string
  | NegativeLimit

subsection \<open>Queries\<close>

text \<open>An autoincrement primary key: one more than the largest key of the table.\<close>

definition next_id :: "int list \<Rightarrow> int" where
  "next_id ids = fold max ids 0 + 1"

text \<open>\<^verbatim>\<open>db.query(Product).filter(Product.id == product_id).first()\<close>\<close>

definition get_product :: "database \<Rightarrow> int \<Rightarrow> Product option" where
  "get_product db product_id = find (\<lambda>p. p_id p = product_id) (products db)"

text \<open>
  \<^verbatim>\<open>db.query(InventoryLevel).filter(and_(product_id == .., location_id == ..)).first()\<close>
\<close>

definition level_matches :: "int \<Rightarrow> string \<Rightarrow> InventoryLevel \<Rightarrow> bool" where
  "level_matches product_id location_id l =
     (il_product_id l = product_id \<and> il_location_id l = location_id)"

definition get_inventory_level :: "database \<Rightarrow> int \<Rightarrow> string \<Rightarrow> InventoryLevel option" where
  "get_inventory_level db product_id location_id =
     find (level_matches product_id location_id) (inventory_levels db)"

text \<open>A mutated ORM object is written back to its own row: the first row that matches.\<close>

fun update_first :: "('a \<Rightarrow> bool) \<Rightarrow> ('a \<Rightarrow> 'a) \<Rightarrow> 'a list \<Rightarrow> 'a list" where
  "update_first P f [] = []"
| "update_first P f (x # xs) = (if P x then f x # xs else x # update_first P f xs)"

section \<open>AlertDispatcher.create\_alert (app/services/alert\_dispatcher.py)\<close>

text \<open>
  \<^verbatim>\<open>create_alert\<close> adds an \<^verbatim>\<open>Alert\<close> row to the session: status \<^verbatim>\<open>ACTIVE\<close> and
  \<^verbatim>\<open>is_expired = False\<close> by the column defaults, \<^verbatim>\<open>created_by = "system"\<close>,
  \<^verbatim>\<open>expires_at = utcnow() + timedelta(hours=expires_in_hours)\<close>. The delivery channels only
  write log lines, and the cache entry \<^verbatim>\<open>alert:<id>\<close> is written and deleted but never read;
  neither is part of the state.
\<close>

definition create_alert ::
  "database \<Rightarrow> AlertType \<Rightarrow> AlertSeverity \<Rightarrow> string \<Rightarrow> int option \<Rightarrow> int option \<Rightarrow> int \<Rightarrow> int
     \<Rightarrow> database \<times> Alert" where
  "create_alert db a_type sev ttl product_id sale_id expires_in_hours now =
     (let alert = \<lparr> a_id = next_id (map a_id (alerts db)),
                     alert_type = a_type, severity = sev, status = ACTIVE, title = ttl,
                     a_product_id = product_id, a_sale_id = sale_id,
                     created_by = Some ''system'', acknowledged_by = None, resolved_by = None,
                     a_created_at = now, acknowledged_at = None, resolved_at = None,
                     expires_at = Some (now + 3600 * expires_in_hours), is_expired = False \<rparr>
      in (db\<lparr>alerts := alerts db @ [alert]\<rparr>, alert))"

section \<open>InventoryMonitor (app/services/inventory\_monitor.py)\<close>

text \<open>
  \<^verbatim>\<open>_check_stock_alerts\<close> (lines 230-283): the \<^verbatim>\<open>if\<close>/\<^verbatim>\<open>elif\<close>/\<^verbatim>\<open>elif\<close> chain, in the source's
  order, each branch one \<^verbatim>\<open>create_alert\<close> with the default 24 hours.
\<close>

definition check_stock_alerts ::
  "database \<Rightarrow> Product \<Rightarrow> InventoryLevel \<Rightarrow> int \<Rightarrow> int \<Rightarrow> database" where
  "check_stock_alerts db product inventory previous_available now =
     (if available_quantity inventory \<le> 0 \<and> previous_available > 0 then
        fst (create_alert db OUT_OF_STOCK HIGH (''Product Out of Stock: '' @ p_name product)
               (Some (p_id product)) None 24 now)
      else if available_quantity inventory \<le> min_stock_level product
              \<and> previous_available > min_stock_level product then
        fst (create_alert db LOW_STOCK MEDIUM (''Low Stock Alert: '' @ p_name product)
               (Some (p_id product)) None 24 now)
      else if available_quantity inventory \<le> reorder_point product
              \<and> previous_available > reorder_point product then
        fst (create_alert db LOW_STOCK LOW (''Reorder Point Reached: '' @ p_name product)
               (Some (p_id product)) None 24 now)
      else db)"

text \<open>
  Lines 86-94 of \<^verbatim>\<open>update_stock_level\<close>: add the delta, recompute the available quantity
  as current minus reserved, then reset both to zero when the current quantity is negative.
\<close>

definition update_quantities :: "InventoryLevel \<Rightarrow> int \<Rightarrow> InventoryLevel" where
  "update_quantities inventory_level quantity =
     (let l1 = inventory_level\<lparr>current_quantity := current_quantity inventory_level + quantity\<rparr>;
          l2 = l1\<lparr>available_quantity := current_quantity l1 - reserved_quantity l1\<rparr>
      in if current_quantity l2 < 0
         then l2\<lparr>current_quantity := 0, available_quantity := 0\<rparr>
         else l2)"

text \<open>
  Lines 71-80: the row \<^verbatim>\<open>InventoryLevel(product_id=.., current_quantity=0,
  reserved_quantity=0, available_quantity=0, location_id=..)\<close> created on the first movement
  of a product at a location, its key given by the flush.
\<close>

definition new_inventory_level :: "database \<Rightarrow> int \<Rightarrow> string \<Rightarrow> InventoryLevel" where
  "new_inventory_level db product_id location_id =
     \<lparr> il_id = next_id (map il_id (inventory_levels db)),
       il_product_id = product_id, current_quantity = 0,
       reserved_quantity = 0, available_quantity = 0,
       il_location_id = location_id \<rparr>"

text \<open>The dictionary \<^verbatim>\<open>update_stock_level\<close> returns.\<close>

record StockUpdate =
  su_product_id :: int
  su_product_name :: string
  su_previous_quantity :: int
  su_new_quantity :: int
  su_available_quantity :: int
  su_movement_type :: StockMovementType
  su_quantity_changed :: int

text \<open>
  \<^verbatim>\<open>update_stock_level\<close> (lines 28-131) on a session: the product lookup (a missing
  product raises), the inventory row read or created with zero quantities, the quantities
  updated in the row, the movement appended, the alerts checked. The write-only cache entry
  \<^verbatim>\<open>stock:<id>\<close> is not part of the state.
\<close>

definition update_stock_level ::
  "database \<Rightarrow> int \<Rightarrow> int \<Rightarrow> StockMovementType \<Rightarrow> string option \<Rightarrow> string option
     \<Rightarrow> string option \<Rightarrow> string option \<Rightarrow> string \<Rightarrow> int \<Rightarrow> error + database \<times> StockUpdate" where
  "update_stock_level db product_id quantity m_type ref_id ref_type user_id notes location_id now =
     (case get_product db product_id of
        None \<Rightarrow> Inl (ProductNotFound product_id)
      | Some product \<Rightarrow>
          let (db1, inventory_level) =
                (case get_inventory_level db product_id location_id of
                   Some l \<Rightarrow> (db, l)
                 | None \<Rightarrow>
                     let l = new_inventory_level db product_id location_id
                     in (db\<lparr>inventory_levels := inventory_levels db @ [l]\<rparr>, l));
              previous_qty = current_quantity inventory_level;
              previous_available = available_quantity inventory_level;
              updated = update_quantities inventory_level quantity;
              db2 = db1\<lparr>inventory_levels :=
                       update_first (level_matches product_id location_id) (\<lambda>_. updated)
                         (inventory_levels db1)\<rparr>;
              stock_movement =
                \<lparr> sm_id = next_id (map sm_id (stock_movements db2)),
                  sm_product_id = product_id, movement_type = m_type, sm_quantity = quantity,
                  previous_quantity = previous_qty, new_quantity = current_quantity updated,
                  reference_id = ref_id, reference_type = ref_type, sm_user_id = user_id,
                  sm_notes = notes, sm_location_id = location_id, sm_created_at = now \<rparr>;
              db3 = db2\<lparr>stock_movements := stock_movements db2 @ [stock_movement]\<rparr>;
              db4 = check_stock_alerts db3 product updated previous_available now
          in Inr (db4,
                  \<lparr> su_product_id = product_id, su_product_name = p_name product,
                    su_previous_quantity = previous_qty,
                    su_new_quantity = current_quantity updated,
                    su_available_quantity = available_quantity updated,
                    su_movement_type = m_type, su_quantity_changed = quantity \<rparr>))"

subsection \<open>What a stock update does to the database\<close>

text \<open>
  The row \<^verbatim>\<open>update_stock_level\<close> works on (the stored one, or the fresh one with zero
  quantities) and the table it is then found in.
\<close>

definition level_before :: "database \<Rightarrow> int \<Rightarrow> string \<Rightarrow> InventoryLevel" where
  "level_before db product_id location_id =
     (case get_inventory_level db product_id location_id of
        Some l \<Rightarrow> l
      | None \<Rightarrow> new_inventory_level db product_id location_id)"

definition levels_before :: "database \<Rightarrow> int \<Rightarrow> string \<Rightarrow> InventoryLevel list" where
  "levels_before db product_id location_id =
     (case get_inventory_level db product_id location_id of
        Some l \<Rightarrow> inventory_levels db
      | None \<Rightarrow> inventory_levels db @ [new_inventory_level db product_id location_id])"

text \<open>What an alert is to the threshold policy: its type and its severity.\<close>

definition alert_kind :: "Alert \<Rightarrow> AlertType \<times> AlertSeverity" where
  "alert_kind a = (alert_type a, severity a)"

text \<open>
  The threshold policy in the words of the specification (section 4.2): ordered, first
  match wins, each rule a downward crossing of one threshold.
\<close>

definition threshold_policy :: "Product \<Rightarrow> int \<Rightarrow> int \<Rightarrow> (AlertType \<times> AlertSeverity) list" where
  "threshold_policy product previous_available new_available =
     (if new_available \<le> 0 \<and> previous_available > 0 then [(OUT_OF_STOCK, HIGH)]
      else if new_available \<le> min_stock_level product
              \<and> previous_available > min_stock_level product
        then [(LOW_STOCK, MEDIUM)]
      else if new_available \<le> reorder_point product
              \<and> previous_available > reorder_point product
        then [(LOW_STOCK, LOW)]
      else [])"

text \<open>
  A run of stock movements of one product at the main location, each one call of
  \<^verbatim>\<open>update_stock_level\<close> as \<^verbatim>\<open>record_sale\<close> makes it; the first error ends the run.
\<close>

fun apply_movements :: "database \<Rightarrow> int \<Rightarrow> int list \<Rightarrow> int \<Rightarrow> error + database" where
  "apply_movements db product_id [] now = Inr db"
| "apply_movements db product_id (q # qs) now =
     (case update_stock_level db product_id q SALE None None None None ''main'' now of
        Inl e \<Rightarrow> Inl e
      | Inr (db', r) \<Rightarrow> apply_movements db' product_id qs now)"

text \<open>
  A product with the default thresholds of the model class (minimum stock level 10, reorder
  point 20) and a shop that stocks it at the main location, for the concrete runs below.
\<close>

definition widget :: Product where
  "widget = \<lparr> p_id = 1, p_sku = ''SKU-1'', p_name = ''Widget'', min_stock_level = 10,
               max_stock_level = 100, reorder_point = 20, is_active = True, is_tracked = True \<rparr>"

definition shop :: "int \<Rightarrow> int \<Rightarrow> int \<Rightarrow> database" where
  "shop current reserved available =
     \<lparr> products = [widget],
       inventory_levels =
         [\<lparr> il_id = 1, il_product_id = 1, current_quantity = current,
            reserved_quantity = reserved, available_quantity = available,
            il_location_id = ''main'' \<rparr>],
       stock_movements = [], alerts = [], sales = [], sale_items = [] \<rparr>"

lemma check_stock_alerts_frame:
  "products (check_stock_alerts db p l pa now) = products db"
  "inventory_levels (check_stock_alerts db p l pa now) = inventory_levels db"
  "stock_movements (check_stock_alerts db p l pa now) = stock_movements db"
  "sales (check_stock_alerts db p l pa now) = sales db"
  "sale_items (check_stock_alerts db p l pa now) = sale_items db"
  by (simp_all add: check_stock_alerts_def create_alert_def Let_def)

lemma check_stock_alerts_appends:
  "\<exists>news. alerts (check_stock_alerts db p l pa now) = alerts db @ news
      \<and> map alert_kind news = threshold_policy p pa (available_quantity l)"
  by (simp add: check_stock_alerts_def create_alert_def Let_def threshold_policy_def alert_kind_def)

lemma find_update_first:
  "P y \<Longrightarrow> find P (update_first P (\<lambda>_. y) xs) = (case find P xs of None \<Rightarrow> None | Some _ \<Rightarrow> Some y)"
  by (induction xs) auto

lemma find_append_new:
  "find P xs = None \<Longrightarrow> find P (xs @ [y]) = (if P y then Some y else None)"
  by (induction xs) (auto split: if_splits)

lemma update_quantities_key:
  "il_product_id (update_quantities l q) = il_product_id l"
  "il_location_id (update_quantities l q) = il_location_id l"
  "reserved_quantity (update_quantities l q) = reserved_quantity l"
  "il_id (update_quantities l q) = il_id l"
  by (simp_all add: update_quantities_def Let_def)

lemma update_quantities_current:
  "current_quantity (update_quantities l q) = max 0 (current_quantity l + q)"
  by (simp add: update_quantities_def Let_def)

lemma update_quantities_available:
  "available_quantity (update_quantities l q) =
     (if current_quantity l + q < 0 then 0 else current_quantity l + q - reserved_quantity l)"
  by (simp add: update_quantities_def Let_def)

lemma find_level_matches:
  "find (level_matches pid loc) xs = Some l \<Longrightarrow> level_matches pid loc l"
  by (induction xs) (auto split: if_splits)

lemma level_before_matches: "level_matches pid loc (level_before db pid loc)"
  by (auto simp: level_before_def get_inventory_level_def new_inventory_level_def level_matches_def
      split: option.splits dest: find_level_matches)

lemma find_levels_before:
  "find (level_matches pid loc) (levels_before db pid loc) = Some (level_before db pid loc)"
  by (auto simp: levels_before_def level_before_def get_inventory_level_def find_append_new
       new_inventory_level_def level_matches_def split: option.splits)

lemma update_stock_level_eq:
  assumes "get_product db pid = Some product"
  shows "update_stock_level db pid q mt ri rt u n loc now =
           Inr (check_stock_alerts
                  (db\<lparr>inventory_levels :=
                        update_first (level_matches pid loc)
                          (\<lambda>_. update_quantities (level_before db pid loc) q)
                          (levels_before db pid loc),
                      stock_movements := stock_movements db @
                        [\<lparr> sm_id = next_id (map sm_id (stock_movements db)),
                           sm_product_id = pid, movement_type = mt, sm_quantity = q,
                           previous_quantity = current_quantity (level_before db pid loc),
                           new_quantity =
                             current_quantity (update_quantities (level_before db pid loc) q),
                           reference_id = ri, reference_type = rt, sm_user_id = u,
                           sm_notes = n, sm_location_id = loc, sm_created_at = now \<rparr>]\<rparr>)
                  product (update_quantities (level_before db pid loc) q)
                  (available_quantity (level_before db pid loc)) now,
                \<lparr> su_product_id = pid, su_product_name = p_name product,
                  su_previous_quantity = current_quantity (level_before db pid loc),
                  su_new_quantity =
                    current_quantity (update_quantities (level_before db pid loc) q),
                  su_available_quantity =
                    available_quantity (update_quantities (level_before db pid loc) q),
                  su_movement_type = mt, su_quantity_changed = q \<rparr>)"
  using assms
  by (simp add: update_stock_level_def Let_def level_before_def levels_before_def
        split: option.splits)

lemma update_stock_level_result:
  assumes "get_product db pid = Some product"
  shows "\<exists>db'. update_stock_level db pid q mt ri rt u n loc now =
           Inr (db', \<lparr> su_product_id = pid, su_product_name = p_name product,
                    su_previous_quantity = current_quantity (level_before db pid loc),
                    su_new_quantity =
                      current_quantity (update_quantities (level_before db pid loc) q),
                    su_available_quantity =
                      available_quantity (update_quantities (level_before db pid loc) q),
                    su_movement_type = mt, su_quantity_changed = q \<rparr>)
          \<and> products db' = products db
          \<and> sales db' = sales db \<and> sale_items db' = sale_items db
          \<and> get_inventory_level db' pid loc = Some (update_quantities (level_before db pid loc) q)
          \<and> (\<exists>news. alerts db' = alerts db @ news \<and> map alert_kind news =
                threshold_policy product (available_quantity (level_before db pid loc))
                   (available_quantity (update_quantities (level_before db pid loc) q)))"
proof -
  let ?l = "update_quantities (level_before db pid loc) q"
  have m: "level_matches pid loc ?l"
    using level_before_matches[of pid loc db] by (simp add: level_matches_def update_quantities_key)
  let ?db2 = "db\<lparr>inventory_levels :=
                    update_first (level_matches pid loc) (\<lambda>_. ?l) (levels_before db pid loc),
                  stock_movements := stock_movements db @
                    [\<lparr> sm_id = next_id (map sm_id (stock_movements db)),
                       sm_product_id = pid, movement_type = mt, sm_quantity = q,
                       previous_quantity = current_quantity (level_before db pid loc),
                       new_quantity = current_quantity ?l,
                       reference_id = ri, reference_type = rt, sm_user_id = u,
                       sm_notes = n, sm_location_id = loc, sm_created_at = now \<rparr>]\<rparr>"
  let ?db' = "check_stock_alerts ?db2 product ?l (available_quantity (level_before db pid loc)) now"
  have a: "\<exists>news. alerts ?db' = alerts db @ news \<and> map alert_kind news =
                threshold_policy product (available_quantity (level_before db pid loc))
                   (available_quantity ?l)"
    using check_stock_alerts_appends[of ?db2 product ?l "available_quantity (level_before db pid loc)" now]
    by simp
  have fu: "find (level_matches pid loc)
              (update_first (level_matches pid loc) (\<lambda>_. ?l) (levels_before db pid loc)) = Some ?l"
    using find_update_first[of "level_matches pid loc" ?l "levels_before db pid loc"] m
    by (simp add: find_levels_before)
  have f: "get_inventory_level ?db' pid loc = Some ?l"
    by (simp add: get_inventory_level_def check_stock_alerts_frame fu)
  show ?thesis
    unfolding update_stock_level_eq[OF assms]
    using a f by (simp add: check_stock_alerts_frame)
qed

lemma shop_facts:
  "get_product (shop c r a) 1 = Some widget"
  "level_before (shop c r a) 1 ''main'' =
     \<lparr> il_id = 1, il_product_id = 1, current_quantity = c, reserved_quantity = r,
       available_quantity = a, il_location_id = ''main'' \<rparr>"
  by (simp_all add: shop_def widget_def get_product_def level_before_def get_inventory_level_def
        level_matches_def)

subsection \<open>Alerts of a run of decrements\<close>

text \<open>
  A threshold \<open>t\<close> is crossed downwards between the available quantities \<open>a\<close> (before)
  and \<open>f\<close> (after) when \<open>f \<le> t < a\<close>. \<open>at_most_one_crossed\<close>: of the three threshold
  values (zero, the minimum stock level, the reorder point), those crossed are one and the
  same value.
\<close>

definition crosses :: "int \<Rightarrow> int \<Rightarrow> int \<Rightarrow> bool" where
  "crosses t a f = (f \<le> t \<and> t < a)"

definition at_most_one_crossed :: "Product \<Rightarrow> int \<Rightarrow> int \<Rightarrow> bool" where
  "at_most_one_crossed p a f =
     ((crosses 0 a f \<and> crosses (min_stock_level p) a f \<longrightarrow> min_stock_level p = 0)
      \<and> (crosses 0 a f \<and> crosses (reorder_point p) a f \<longrightarrow> reorder_point p = 0)
      \<and> (crosses (min_stock_level p) a f \<and> crosses (reorder_point p) a f
            \<longrightarrow> reorder_point p = min_stock_level p))"

lemma crosses_mono: "crosses t a' f' \<Longrightarrow> f \<le> f' \<Longrightarrow> a' \<le> a \<Longrightarrow> crosses t a f"
  by (simp add: crosses_def)

lemma at_most_one_crossed_mono:
  assumes "at_most_one_crossed p a f" "f \<le> f'" "a' \<le> a"
  shows "at_most_one_crossed p a' f'"
  using assms(1) crosses_mono[OF _ assms(2,3)]
  unfolding at_most_one_crossed_def by blast

lemma threshold_policy_compose:
  assumes "f \<le> m" "m \<le> a" and u: "at_most_one_crossed p a f"
  shows "threshold_policy p a m @ threshold_policy p m f = threshold_policy p a f"
proof -
  have u0m: "f \<le> 0 \<Longrightarrow> 0 < a \<Longrightarrow> f \<le> min_stock_level p \<Longrightarrow> min_stock_level p < a \<Longrightarrow> min_stock_level p = 0"
    using u by (simp add: at_most_one_crossed_def crosses_def)
  have u0r: "f \<le> 0 \<Longrightarrow> 0 < a \<Longrightarrow> f \<le> reorder_point p \<Longrightarrow> reorder_point p < a \<Longrightarrow> reorder_point p = 0"
    using u by (simp add: at_most_one_crossed_def crosses_def)
  have umr: "f \<le> min_stock_level p \<Longrightarrow> min_stock_level p < a \<Longrightarrow> f \<le> reorder_point p \<Longrightarrow> reorder_point p < a \<Longrightarrow> reorder_point p = min_stock_level p"
    using u by (simp add: at_most_one_crossed_def crosses_def)
  show ?thesis
    using assms(1,2) u0m u0r umr
    unfolding threshold_policy_def
    by (auto split: if_splits)
qed

lemma sum_list_nonpos: "list_all (\<lambda>q. q \<le> (0::int)) qs \<Longrightarrow> sum_list qs \<le> 0"
  by (induction qs) auto

lemma sum_list_take_ge:
  assumes "list_all (\<lambda>q. q \<le> (0::int)) qs"
  shows "sum_list qs \<le> sum_list (take k qs)"
proof -
  have "list_all (\<lambda>q. q \<le> 0) (drop k qs)"
    using assms by (auto simp: list_all_iff dest: in_set_dropD)
  then have "sum_list (drop k qs) \<le> 0" by (rule sum_list_nonpos)
  moreover have "sum_list qs = sum_list (take k qs) + sum_list (drop k qs)"
    by (metis append_take_drop_id sum_list_append)
  ultimately show ?thesis by simp
qed

lemma apply_movements_alerts:
  assumes "get_product db pid = Some p"
      and "get_inventory_level db pid ''main'' = Some l"
      and "reserved_quantity l = 0"
      and "available_quantity l = current_quantity l"
      and "list_all (\<lambda>q. q \<le> 0) qs"
      and "0 \<le> current_quantity l + sum_list qs"
      and "at_most_one_crossed p (current_quantity l) (current_quantity l + sum_list qs)"
  shows "\<exists>db' news. apply_movements db pid qs now = Inr db'
           \<and> alerts db' = alerts db @ news
           \<and> map alert_kind news = threshold_policy p (current_quantity l) (current_quantity l + sum_list qs)"
  using assms
proof (induction qs arbitrary: db l)
  case Nil
  show ?case by (simp add: threshold_policy_def)
next
  case (Cons q qs)
  have q: "q \<le> 0" and qs: "list_all (\<lambda>q. q \<le> 0) qs" using Cons.prems(5) by simp_all
  have s: "sum_list qs \<le> 0" using qs by (rule sum_list_nonpos)
  have lb: "level_before db pid ''main'' = l" using Cons.prems(2) by (simp add: level_before_def)
  let ?l1 = "update_quantities l q"
  have c1: "current_quantity ?l1 = current_quantity l + q"
    using Cons.prems(6) s by (simp add: update_quantities_current)
  have a1: "available_quantity ?l1 = current_quantity l + q"
    using Cons.prems(3,6) s by (simp add: update_quantities_available)
  obtain db1 r news1 where
    u: "update_stock_level db pid q SALE None None None None ''main'' now = Inr (db1, r)"
    and p1: "products db1 = products db"
    and l1: "get_inventory_level db1 pid ''main'' = Some ?l1"
    and n1: "alerts db1 = alerts db @ news1"
    and k1: "map alert_kind news1 = threshold_policy p (current_quantity l) (current_quantity l + q)"
    using update_stock_level_result[OF Cons.prems(1), of q SALE None None None None "''main''" now]
    unfolding lb a1 Cons.prems(4) by blast
  have gp: "get_product db1 pid = Some p" using Cons.prems(1) p1 by (simp add: get_product_def)
  have fin: "current_quantity ?l1 + sum_list qs = current_quantity l + sum_list (q # qs)"
    by (simp add: c1)
  have uniq: "at_most_one_crossed p (current_quantity ?l1) (current_quantity ?l1 + sum_list qs)"
    unfolding fin using at_most_one_crossed_mono[OF Cons.prems(7), of "current_quantity l + sum_list (q # qs)" "current_quantity ?l1"] q
    by (simp add: c1)
  have r0: "reserved_quantity ?l1 = 0" using Cons.prems(3) by (simp add: update_quantities_key)
  have av: "available_quantity ?l1 = current_quantity ?l1" by (simp add: a1 c1)
  have nn: "0 \<le> current_quantity ?l1 + sum_list qs" using Cons.prems(6) unfolding fin .
  obtain db' news2 where
    r: "apply_movements db1 pid qs now = Inr db'"
    and n2: "alerts db' = alerts db1 @ news2"
    and k2: "map alert_kind news2 = threshold_policy p (current_quantity ?l1) (current_quantity ?l1 + sum_list qs)"
    using Cons.IH[OF gp l1 r0 av qs nn uniq] by (elim exE conjE)
  have comp: "threshold_policy p (current_quantity l) (current_quantity l + q)
                @ threshold_policy p (current_quantity l + q) (current_quantity l + sum_list (q # qs))
              = threshold_policy p (current_quantity l) (current_quantity l + sum_list (q # qs))"
  proof (rule threshold_policy_compose)
    show "current_quantity l + sum_list (q # qs) \<le> current_quantity l + q" using s by simp
    show "current_quantity l + q \<le> current_quantity l" using q by simp
  qed (rule Cons.prems(7))
  have k2': "map alert_kind news2 =
       threshold_policy p (current_quantity l + q) (current_quantity l + sum_list (q # qs))"
    using k2 by (simp add: c1 add.assoc)
  have e1: "apply_movements db pid (q # qs) now = Inr db'" using u r by simp
  have e2: "alerts db' = alerts db @ (news1 @ news2)" using n1 n2 by simp
  have e3: "map alert_kind (news1 @ news2) =
      threshold_policy p (current_quantity l) (current_quantity l + sum_list (q # qs))"
    using k1 k2' comp by simp
  show ?case
    by (rule exI[of _ db'], rule exI[of _ "news1 @ news2"]) (intro conjI e1 e2 e3)
qed

lemma threshold_policy_single:
  assumes tin: "t = 0 \<or> t = min_stock_level p \<or> t = reorder_point p"
      and ft: "f \<le> t" and ta: "t < a"
      and o0: "f \<le> 0 \<Longrightarrow> 0 < a \<Longrightarrow> t = 0"
      and om: "f \<le> min_stock_level p \<Longrightarrow> min_stock_level p < a \<Longrightarrow> t = min_stock_level p"
      and or: "f \<le> reorder_point p \<Longrightarrow> reorder_point p < a \<Longrightarrow> t = reorder_point p"
      and ge: "f \<le> fk" and le: "fk \<le> a"
  shows "threshold_policy p a fk =
           (if fk \<le> t
            then [if t = 0 then (OUT_OF_STOCK, HIGH)
                  else if t = min_stock_level p then (LOW_STOCK, MEDIUM)
                  else (LOW_STOCK, LOW)]
            else [])"
proof (cases "fk \<le> t")
  case True
  have c0: "fk \<le> 0 \<and> 0 < a \<longleftrightarrow> t = 0"
    using True o0 ta ge by auto
  have cm: "fk \<le> min_stock_level p \<and> min_stock_level p < a \<longleftrightarrow> t = min_stock_level p"
    using True om ta ge by auto
  have cr: "fk \<le> reorder_point p \<and> reorder_point p < a \<longleftrightarrow> t = reorder_point p"
    using True or ta ge by auto
  show ?thesis
    using True tin unfolding threshold_policy_def c0 cm cr by auto
next
  case False
  have c0: "\<not> (fk \<le> 0 \<and> 0 < a)" using False o0 ge by auto
  have cm: "\<not> (fk \<le> min_stock_level p \<and> min_stock_level p < a)" using False om ge by auto
  have cr: "\<not> (fk \<le> reorder_point p \<and> reorder_point p < a)" using False or ge by auto
  show ?thesis
    using False c0 cm cr unfolding threshold_policy_def by simp
qed


text \<open>
  Claim C2. (1) For every stock update of an existing product, with previous available
  quantity \<open>p\<close> (that of the stored row, zero for a new row) and new available quantity
  \<open>n\<close> (the one the update stores and returns), the alerts the update creates are decided
  in order, first match wins: an OUT\_OF\_STOCK alert of severity HIGH when \<open>n \<le> 0 < p\<close>;
  otherwise a LOW\_STOCK alert of severity MEDIUM when \<open>n \<le> min_stock_level < p\<close>;
  otherwise a LOW\_STOCK alert of severity LOW when \<open>n \<le> reorder_point < p\<close>; otherwise
  none. (2) For a run of decrements the stock covers, on a row with nothing reserved, that
  crosses exactly one threshold value \<open>t\<close>: after every prefix of the run the alerts
  created so far are none while the quantity is still above \<open>t\<close>, and exactly one (the
  alert of \<open>t\<close>) from the crossing step on.
\<close>

theorem stock_alerts_follow_threshold_policy:
  assumes product: "get_product db pid = Some product"
  shows "(\<exists>db' r news. update_stock_level db pid q mt ri rt u n loc now = Inr (db', r)
            \<and> alerts db' = alerts db @ news
            \<and> su_available_quantity r =
                  available_quantity (update_quantities (level_before db pid loc) q)
            \<and> map alert_kind news =
                (if su_available_quantity r \<le> 0 \<and> available_quantity (level_before db pid loc) > 0
                   then [(OUT_OF_STOCK, HIGH)]
                 else if su_available_quantity r \<le> min_stock_level product
                         \<and> available_quantity (level_before db pid loc) > min_stock_level product
                   then [(LOW_STOCK, MEDIUM)]
                 else if su_available_quantity r \<le> reorder_point product
                         \<and> available_quantity (level_before db pid loc) > reorder_point product
                   then [(LOW_STOCK, LOW)]
                 else []))
       \<and> (get_inventory_level db pid ''main'' = Some l \<and> reserved_quantity l = 0
            \<and> available_quantity l = current_quantity l
            \<and> list_all (\<lambda>d. d \<le> 0) qs \<and> 0 \<le> current_quantity l + sum_list qs
            \<and> t \<in> {0, min_stock_level product, reorder_point product}
            \<and> current_quantity l + sum_list qs \<le> t \<and> t < current_quantity l
            \<and> (\<forall>t' \<in> {0, min_stock_level product, reorder_point product}.
                  current_quantity l + sum_list qs \<le> t' \<and> t' < current_quantity l \<longrightarrow> t' = t)
          \<longrightarrow> (\<forall>k \<le> length qs. \<exists>dbk news.
                 apply_movements db pid (take k qs) now = Inr dbk
                 \<and> alerts dbk = alerts db @ news
                 \<and> map alert_kind news =
                     (if current_quantity l + sum_list (take k qs) \<le> t
                      then [if t = 0 then (OUT_OF_STOCK, HIGH)
                            else if t = min_stock_level product then (LOW_STOCK, MEDIUM)
                            else (LOW_STOCK, LOW)]
                      else [])))"
    (is "?one \<and> (?hyp \<longrightarrow> ?run)")
proof (rule conjI)
  obtain db' news where
    r: "update_stock_level db pid q mt ri rt u n loc now =
           Inr (db', \<lparr> su_product_id = pid, su_product_name = p_name product,
                    su_previous_quantity = current_quantity (level_before db pid loc),
                    su_new_quantity =
                      current_quantity (update_quantities (level_before db pid loc) q),
                    su_available_quantity =
                      available_quantity (update_quantities (level_before db pid loc) q),
                    su_movement_type = mt, su_quantity_changed = q \<rparr>)"
    and a: "alerts db' = alerts db @ news"
    and k: "map alert_kind news =
              threshold_policy product (available_quantity (level_before db pid loc))
                 (available_quantity (update_quantities (level_before db pid loc) q))"
    using update_stock_level_result[OF product, of q mt ri rt u n loc now] by (elim exE conjE)
  show ?one
    apply (rule exI[of _ db'])
    apply (rule exI[of _ "\<lparr> su_product_id = pid, su_product_name = p_name product,
                    su_previous_quantity = current_quantity (level_before db pid loc),
                    su_new_quantity =
                      current_quantity (update_quantities (level_before db pid loc) q),
                    su_available_quantity =
                      available_quantity (update_quantities (level_before db pid loc) q),
                    su_movement_type = mt, su_quantity_changed = q \<rparr>"])
    apply (rule exI[of _ news])
    apply (simp add: r a k threshold_policy_def)
    done
next
  show "?hyp \<longrightarrow> ?run"
  proof (intro impI allI)
    fix k
    assume h: ?hyp and "k \<le> length qs"
    let ?a = "current_quantity l" and ?f = "current_quantity l + sum_list qs"
    let ?fk = "current_quantity l + sum_list (take k qs)"
    have lvl: "get_inventory_level db pid ''main'' = Some l" and r0: "reserved_quantity l = 0"
      and av: "available_quantity l = current_quantity l"
      and dec: "list_all (\<lambda>d. d \<le> 0) qs" and nn: "0 \<le> ?f"
      and tin: "t = 0 \<or> t = min_stock_level product \<or> t = reorder_point product"
      and ft: "?f \<le> t" and ta: "t < ?a"
      using h by simp_all
    have only: "\<forall>t' \<in> {0, min_stock_level product, reorder_point product}.
                  ?f \<le> t' \<and> t' < ?a \<longrightarrow> t' = t"
      using h by (elim conjE)
    have o0: "?f \<le> 0 \<Longrightarrow> 0 < ?a \<Longrightarrow> t = 0" using only by simp
    have om: "?f \<le> min_stock_level product \<Longrightarrow> min_stock_level product < ?a \<Longrightarrow> t = min_stock_level product"
      using only by simp
    have or: "?f \<le> reorder_point product \<Longrightarrow> reorder_point product < ?a \<Longrightarrow> t = reorder_point product"
      using only by simp
    have one: "at_most_one_crossed product ?a ?f"
      unfolding at_most_one_crossed_def crosses_def using o0 om or by auto
    have deck: "list_all (\<lambda>d. d \<le> 0) (take k qs)"
      using dec by (auto simp: list_all_iff dest: in_set_takeD)
    have ge: "?f \<le> ?fk" using sum_list_take_ge[OF dec, of k] by simp
    have le: "?fk \<le> ?a" using sum_list_nonpos[OF deck] by simp
    have nnk: "0 \<le> ?fk" using nn ge by simp
    have onek: "at_most_one_crossed product ?a ?fk"
      by (rule at_most_one_crossed_mono[OF one ge]) simp
    obtain dbk news where
      r: "apply_movements db pid (take k qs) now = Inr dbk"
      and a: "alerts dbk = alerts db @ news"
      and m: "map alert_kind news = threshold_policy product ?a ?fk"
      using apply_movements_alerts[OF product lvl r0 av deck nnk onek, of now] by (elim exE conjE)
    have pol: "threshold_policy product ?a ?fk =
                     (if ?fk \<le> t
                      then [if t = 0 then (OUT_OF_STOCK, HIGH)
                            else if t = min_stock_level product then (LOW_STOCK, MEDIUM)
                            else (LOW_STOCK, LOW)]
                      else [])"
      by (rule threshold_policy_single[OF tin ft ta o0 om or ge le])
    show "\<exists>dbk news.
                 apply_movements db pid (take k qs) now = Inr dbk
                 \<and> alerts dbk = alerts db @ news
                 \<and> map alert_kind news =
                     (if current_quantity l + sum_list (take k qs) \<le> t
                      then [if t = 0 then (OUT_OF_STOCK, HIGH)
                            else if t = min_stock_level product then (LOW_STOCK, MEDIUM)
                            else (LOW_STOCK, LOW)]
                      else [])"
      apply (rule exI[of _ dbk])
      apply (rule exI[of _ news])
      apply (simp only: r a m pol)
      done
  qed
qed


lemma shop_level:
  "get_inventory_level (shop c r a) 1 ''main'' =
     Some \<lparr> il_id = 1, il_product_id = 1, current_quantity = c, reserved_quantity = r,
            available_quantity = a, il_location_id = ''main'' \<rparr>"
  by (simp add: shop_def get_inventory_level_def level_matches_def)

text \<open>
  The specification's run: a minimum stock level of 10, a reorder point of 20, and the
  decrements 15, 12, 9, 6. No alert after the first step, one LOW\_STOCK alert from the
  second step (12 to 9) on; and the single update from 15 to 6 fires that one alert.
\<close>

theorem stock_alerts_follow_threshold_policy_witness:
  "(\<exists>db' r news. update_stock_level (shop 15 0 15) 1 (- 9) SALE None None None None ''main'' 0
                     = Inr (db', r)
        \<and> alerts db' = alerts (shop 15 0 15) @ news
        \<and> su_available_quantity r = 6
        \<and> map alert_kind news = [(LOW_STOCK, MEDIUM)])
   \<and> (\<exists>dbk news. apply_movements (shop 15 0 15) 1 [- 3] 0 = Inr dbk
        \<and> alerts dbk = alerts (shop 15 0 15) @ news \<and> map alert_kind news = [])
   \<and> (\<exists>dbk news. apply_movements (shop 15 0 15) 1 [- 3, - 3] 0 = Inr dbk
        \<and> alerts dbk = alerts (shop 15 0 15) @ news
        \<and> map alert_kind news = [(LOW_STOCK, MEDIUM)])
   \<and> (\<exists>dbk news. apply_movements (shop 15 0 15) 1 [- 3, - 3, - 3] 0 = Inr dbk
        \<and> alerts dbk = alerts (shop 15 0 15) @ news
        \<and> map alert_kind news = [(LOW_STOCK, MEDIUM)])"
proof -
  note T = stock_alerts_follow_threshold_policy
             [OF shop_facts(1)[of 15 0 15], where q = "- 9" and mt = SALE
                and ri = None and rt = None and u = None and n = None and loc = "''main''"
                and now = 0 and qs = "[- 3, - 3, - 3]" and t = 10
                and l = "\<lparr> il_id = 1, il_product_id = 1, current_quantity = 15,
                          reserved_quantity = 0, available_quantity = 15,
                          il_location_id = ''main'' \<rparr>"]
  have one: "\<exists>db' r news. update_stock_level (shop 15 0 15) 1 (- 9) SALE None None None None ''main'' 0
                     = Inr (db', r)
        \<and> alerts db' = alerts (shop 15 0 15) @ news
        \<and> su_available_quantity r = 6
        \<and> map alert_kind news = [(LOW_STOCK, MEDIUM)]"
    using T[THEN conjunct1]
    by (auto simp: shop_facts update_quantities_available widget_def)
  let ?l = "\<lparr> il_id = 1, il_product_id = 1, current_quantity = 15,
                          reserved_quantity = 0, available_quantity = 15,
                          il_location_id = ''main'' \<rparr>"
  have hyp: "get_inventory_level (shop 15 0 15) 1 ''main'' = Some ?l \<and> reserved_quantity ?l = 0
            \<and> available_quantity ?l = current_quantity ?l
            \<and> list_all (\<lambda>d. d \<le> 0) [- 3, - 3, - 3 :: int]
            \<and> 0 \<le> current_quantity ?l + sum_list [- 3, - 3, - 3]
            \<and> 10 \<in> {0, min_stock_level widget, reorder_point widget}
            \<and> current_quantity ?l + sum_list [- 3, - 3, - 3] \<le> 10 \<and> 10 < current_quantity ?l
            \<and> (\<forall>t' \<in> {0, min_stock_level widget, reorder_point widget}.
                  current_quantity ?l + sum_list [- 3, - 3, - 3] \<le> t' \<and> t' < current_quantity ?l
                    \<longrightarrow> t' = 10)"
    by (simp add: shop_level widget_def)
  note R = T[THEN conjunct2, THEN mp, OF hyp, THEN spec, THEN mp]
  have k1: "\<exists>dbk news. apply_movements (shop 15 0 15) 1 [- 3] 0 = Inr dbk
        \<and> alerts dbk = alerts (shop 15 0 15) @ news \<and> map alert_kind news = []"
    using R[of 1] by (simp add: widget_def)
  have k2: "\<exists>dbk news. apply_movements (shop 15 0 15) 1 [- 3, - 3] 0 = Inr dbk
        \<and> alerts dbk = alerts (shop 15 0 15) @ news
        \<and> map alert_kind news = [(LOW_STOCK, MEDIUM)]"
    using R[of 2] by (simp add: widget_def)
  have k3: "\<exists>dbk news. apply_movements (shop 15 0 15) 1 [- 3, - 3, - 3] 0 = Inr dbk
        \<and> alerts dbk = alerts (shop 15 0 15) @ news
        \<and> map alert_kind news = [(LOW_STOCK, MEDIUM)]"
    using R[of 3] by (simp add: widget_def)
  show ?thesis
    by (intro conjI one k1 k2 k3)
qed

subsection \<open>The current quantity is clamped at zero\<close>

text \<open>
  Claim C3. For every delta, of any size and sign, \<^verbatim>\<open>update_stock_level\<close> on an existing
  product returns normally (the clamp raises nothing), and the current quantity it stores
  and reports is \<open>max 0 (current + delta)\<close>, where the current quantity of a product with
  no inventory row yet is zero; so the stored current quantity is never negative.
\<close>

theorem update_stock_level_clamps_current:
  assumes "get_product db pid = Some product"
  shows "\<exists>db' r l'. update_stock_level db pid q mt ri rt u n loc now = Inr (db', r)
           \<and> get_inventory_level db' pid loc = Some l'
           \<and> current_quantity l' = max 0 (current_quantity (level_before db pid loc) + q)
           \<and> su_new_quantity r = current_quantity l'
           \<and> 0 \<le> current_quantity l'"
  using update_stock_level_result[OF assms, of q mt ri rt u n loc now]
  by (auto simp: update_quantities_current)

text \<open>Fifteen in stock and forty sold: the stored quantity is zero, and the call returns.\<close>

theorem update_stock_level_clamps_current_witness:
  "\<exists>db' r l'. update_stock_level (shop 15 0 15) 1 (- 40) SALE None None None None ''main'' 0
                 = Inr (db', r)
           \<and> get_inventory_level db' 1 ''main'' = Some l'
           \<and> current_quantity l' = 0 \<and> su_new_quantity r = 0"
  using update_stock_level_clamps_current
          [OF shop_facts(1), of 15 0 15 "- 40" SALE None None None None "''main''" 0]
  by (auto simp: shop_facts)

subsection \<open>The available quantity is not clamped\<close>

text \<open>
  Claim C1. The claim is that after every \<^verbatim>\<open>update_stock_level\<close> the row satisfies
  \<open>available_quantity = max 0 (current_quantity - reserved_quantity)\<close>, also when more is
  reserved than is in stock. The code resets the available quantity only when the current
  quantity is negative (\<open>update_quantities_available\<close>): with 5 in stock, 8 reserved and a
  purchase of 1, the row ends with current 6, reserved 8 and available \<open>-2\<close>, where the
  claim asks for 0.
\<close>

theorem update_stock_level_available_negative:
  "\<exists>db' r l'. update_stock_level (shop 5 8 0) 1 1 PURCHASE None None None None ''main'' 0
                 = Inr (db', r)
           \<and> get_inventory_level db' 1 ''main'' = Some l'
           \<and> current_quantity l' = 6 \<and> reserved_quantity l' = 8
           \<and> available_quantity l' = - 2
           \<and> max 0 (current_quantity l' - reserved_quantity l') = 0"
  using update_stock_level_result
          [OF shop_facts(1), of 5 8 0 1 PURCHASE None None None None "''main''" 0]
  by (auto simp: shop_facts update_quantities_def Let_def)

section \<open>Alert lifecycle (app/services/alert\_dispatcher.py)\<close>

text \<open>
  \<^verbatim>\<open>acknowledge_alert\<close>, \<^verbatim>\<open>resolve_alert\<close> and \<^verbatim>\<open>dismiss_alert\<close> (lines 196-272) each open a
  session, read the alert by its id, return \<^verbatim>\<open>False\<close> when there is none, and otherwise
  assign the status and the user and time columns, commit and return \<^verbatim>\<open>True\<close>. None reads
  the status the alert has. \<^verbatim>\<open>dismiss_alert\<close> writes the \<^verbatim>\<open>acknowledged_by\<close> and
  \<^verbatim>\<open>acknowledged_at\<close> columns, as the source does.
\<close>

definition get_alert :: "database \<Rightarrow> int \<Rightarrow> Alert option" where
  "get_alert db alert_id = find (\<lambda>a. a_id a = alert_id) (alerts db)"

definition acknowledge_alert :: "database \<Rightarrow> int \<Rightarrow> string \<Rightarrow> int \<Rightarrow> bool \<times> database" where
  "acknowledge_alert db alert_id user_id now =
     (case get_alert db alert_id of
        None \<Rightarrow> (False, db)
      | Some alert \<Rightarrow>
          (True, db\<lparr>alerts := update_first (\<lambda>a. a_id a = alert_id)
                    (\<lambda>a. a\<lparr>status := ACKNOWLEDGED, acknowledged_by := Some user_id,
                            acknowledged_at := Some now\<rparr>) (alerts db)\<rparr>))"

definition resolve_alert :: "database \<Rightarrow> int \<Rightarrow> string \<Rightarrow> int \<Rightarrow> bool \<times> database" where
  "resolve_alert db alert_id user_id now =
     (case get_alert db alert_id of
        None \<Rightarrow> (False, db)
      | Some alert \<Rightarrow>
          (True, db\<lparr>alerts := update_first (\<lambda>a. a_id a = alert_id)
                    (\<lambda>a. a\<lparr>status := RESOLVED, resolved_by := Some user_id,
                            resolved_at := Some now\<rparr>) (alerts db)\<rparr>))"

definition dismiss_alert :: "database \<Rightarrow> int \<Rightarrow> string \<Rightarrow> int \<Rightarrow> bool \<times> database" where
  "dismiss_alert db alert_id user_id now =
     (case get_alert db alert_id of
        None \<Rightarrow> (False, db)
      | Some alert \<Rightarrow>
          (True, db\<lparr>alerts := update_first (\<lambda>a. a_id a = alert_id)
                    (\<lambda>a. a\<lparr>status := DISMISSED, acknowledged_by := Some user_id,
                            acknowledged_at := Some now\<rparr>) (alerts db)\<rparr>))"

text \<open>A database that holds alerts only, and an alert that has been through the lifecycle.\<close>

definition alert_store :: "Alert list \<Rightarrow> database" where
  "alert_store as = \<lparr> products = [], inventory_levels = [], stock_movements = [], alerts = as,
                      sales = [], sale_items = [] \<rparr>"

definition old_alert :: "AlertStatus \<Rightarrow> Alert" where
  "old_alert st = \<lparr> a_id = 1, alert_type = LOW_STOCK, severity = MEDIUM, status = st,
                     title = ''Low Stock Alert: Widget'', a_product_id = Some 1, a_sale_id = None,
                     created_by = Some ''system'', acknowledged_by = Some ''ann'',
                     resolved_by = Some ''bob'', a_created_at = 0, acknowledged_at = Some 5,
                     resolved_at = Some 7, expires_at = Some 10, is_expired = False \<rparr>"

lemma find_update_first_id:
  assumes "\<And>x. a_id (f x) = a_id x"
  shows "find (\<lambda>a. a_id a = j) (update_first (\<lambda>a. a_id a = i) f xs) =
           (if j = i then map_option f (find (\<lambda>a. a_id a = i) xs)
            else find (\<lambda>a. a_id a = j) xs)"
  using assms by (induction xs) auto

subsection \<open>Transitions do not look at the status\<close>

text \<open>
  Claim C4, as amended. The claim is that a transition call on an alert that is not ACTIVE
  fails and changes nothing; the code has no such guard. What holds: for every alert that
  exists, whatever its status, each of the three calls returns \<^verbatim>\<open>True\<close> and overwrites the
  status (ACKNOWLEDGED, RESOLVED, DISMISSED) and the user and time columns it writes
  (\<open>acknowledged_by\<close>/\<open>acknowledged_at\<close> for acknowledge and dismiss,
  \<open>resolved_by\<close>/\<open>resolved_at\<close> for resolve); a call returns \<^verbatim>\<open>False\<close> and changes
  nothing exactly when no alert has the id; and no call touches an alert with another id.
\<close>

theorem alert_transitions_ignore_status:
  "(get_alert db i = Some a \<longrightarrow>
      fst (acknowledge_alert db i u now) \<and>
      get_alert (snd (acknowledge_alert db i u now)) i =
        Some (a\<lparr>status := ACKNOWLEDGED, acknowledged_by := Some u, acknowledged_at := Some now\<rparr>) \<and>
      fst (resolve_alert db i u now) \<and>
      get_alert (snd (resolve_alert db i u now)) i =
        Some (a\<lparr>status := RESOLVED, resolved_by := Some u, resolved_at := Some now\<rparr>) \<and>
      fst (dismiss_alert db i u now) \<and>
      get_alert (snd (dismiss_alert db i u now)) i =
        Some (a\<lparr>status := DISMISSED, acknowledged_by := Some u, acknowledged_at := Some now\<rparr>))
   \<and> (get_alert db i = None \<longrightarrow>
        acknowledge_alert db i u now = (False, db) \<and> resolve_alert db i u now = (False, db)
        \<and> dismiss_alert db i u now = (False, db))
   \<and> (j \<noteq> i \<longrightarrow>
        get_alert (snd (acknowledge_alert db i u now)) j = get_alert db j
        \<and> get_alert (snd (resolve_alert db i u now)) j = get_alert db j
        \<and> get_alert (snd (dismiss_alert db i u now)) j = get_alert db j)"
  by (auto simp: acknowledge_alert_def resolve_alert_def dismiss_alert_def get_alert_def
        find_update_first_id split: option.splits)

text \<open>
  The claim fails: a RESOLVED alert is dismissed, a DISMISSED one acknowledged and an
  ACKNOWLEDGED one resolved, each call returning \<^verbatim>\<open>True\<close> and rewriting the row.
\<close>

theorem terminal_alert_is_modified:
  "status (old_alert RESOLVED) \<noteq> ACTIVE
   \<and> dismiss_alert (alert_store [old_alert RESOLVED]) 1 ''eve'' 50 =
       (True, alert_store [(old_alert RESOLVED)\<lparr>status := DISMISSED,
                             acknowledged_by := Some ''eve'', acknowledged_at := Some 50\<rparr>])
   \<and> acknowledge_alert (alert_store [old_alert DISMISSED]) 1 ''eve'' 50 =
       (True, alert_store [(old_alert DISMISSED)\<lparr>status := ACKNOWLEDGED,
                             acknowledged_by := Some ''eve'', acknowledged_at := Some 50\<rparr>])
   \<and> resolve_alert (alert_store [old_alert ACKNOWLEDGED]) 1 ''eve'' 50 =
       (True, alert_store [(old_alert ACKNOWLEDGED)\<lparr>status := RESOLVED,
                             resolved_by := Some ''eve'', resolved_at := Some 50\<rparr>])"
  by (simp add: dismiss_alert_def acknowledge_alert_def resolve_alert_def get_alert_def
        alert_store_def old_alert_def)

text \<open>The amended statement at a RESOLVED alert with id 1, and at the absent id 2.\<close>

theorem alert_transitions_ignore_status_witness:
  "get_alert (alert_store [old_alert RESOLVED]) 1 = Some (old_alert RESOLVED)
   \<and> fst (dismiss_alert (alert_store [old_alert RESOLVED]) 1 ''eve'' 50)
   \<and> get_alert (snd (dismiss_alert (alert_store [old_alert RESOLVED]) 1 ''eve'' 50)) 1 =
       Some ((old_alert RESOLVED)\<lparr>status := DISMISSED, acknowledged_by := Some ''eve'',
                                  acknowledged_at := Some 50\<rparr>)
   \<and> get_alert (alert_store [old_alert RESOLVED]) 2 = None
   \<and> dismiss_alert (alert_store [old_alert RESOLVED]) 2 ''eve'' 50
        = (False, alert_store [old_alert RESOLVED])"
proof -
  have g: "get_alert (alert_store [old_alert RESOLVED]) 1 = Some (old_alert RESOLVED)"
    by (simp add: get_alert_def alert_store_def old_alert_def)
  have n: "get_alert (alert_store [old_alert RESOLVED]) 2 = None"
    by (simp add: get_alert_def alert_store_def old_alert_def)
  show ?thesis
    using g n
      alert_transitions_ignore_status[of "alert_store [old_alert RESOLVED]" 1 "old_alert RESOLVED"
         "''eve''" 50 1]
      alert_transitions_ignore_status[of "alert_store [old_alert RESOLVED]" 2 "old_alert RESOLVED"
         "''eve''" 50 2]
    by simp
qed

section \<open>The expiry sweep (app/services/alert\_dispatcher.py)\<close>

text \<open>
  \<^verbatim>\<open>cleanup_expired_alerts\<close> (lines 330-351) is one bulk update: the rows with
  \<^verbatim>\<open>status == ACTIVE\<close> and \<^verbatim>\<open>expires_at <= utcnow()\<close> (a null \<^verbatim>\<open>expires_at\<close> compares as
  unknown and does not match) get \<^verbatim>\<open>is_expired = True\<close>, and the call returns the number of
  rows the filter matched. The status column is not written.
\<close>

definition expiry_due :: "int \<Rightarrow> Alert \<Rightarrow> bool" where
  "expiry_due now a =
     (status a = ACTIVE \<and> (case expires_at a of None \<Rightarrow> False | Some e \<Rightarrow> e \<le> now))"

definition cleanup_expired_alerts :: "database \<Rightarrow> int \<Rightarrow> nat \<times> database" where
  "cleanup_expired_alerts db now =
     (length (filter (expiry_due now) (alerts db)),
      db\<lparr>alerts := map (\<lambda>a. if expiry_due now a then a\<lparr>is_expired := True\<rparr> else a)
                       (alerts db)\<rparr>)"

lemma expiry_due_marked: "expiry_due now (a\<lparr>is_expired := True\<rparr>) = expiry_due now a"
  by (simp add: expiry_due_def)

lemma cleanup_alerts_nth:
  assumes "k < length (alerts db)"
  shows "alerts (snd (cleanup_expired_alerts db now)) ! k =
           (if expiry_due now (alerts db ! k) then (alerts db ! k)\<lparr>is_expired := True\<rparr>
            else alerts db ! k)"
  using assms by (simp add: cleanup_expired_alerts_def)

lemma cleanup_twice:
  "snd (cleanup_expired_alerts (snd (cleanup_expired_alerts db now)) now)
     = snd (cleanup_expired_alerts db now)"
  by (simp add: cleanup_expired_alerts_def expiry_due_marked o_def cong: if_cong)

subsection \<open>The sweep marks, and does not change the status\<close>

text \<open>
  Claim C5, as amended. The claim is that the sweep moves the due alerts to a status
  EXPIRED and that a second call returns 0; \<^verbatim>\<open>AlertStatus\<close> has no such member and the sweep
  writes \<open>is_expired\<close> only. What holds: the sweep returns the number of alerts with status
  ACTIVE and \<open>expires_at \<le> now\<close>, sets \<open>is_expired\<close> on exactly those alerts, and changes
  nothing else (every status, every other alert and every other table stay as they were);
  a second sweep at the same time leaves the database as the first one left it.
\<close>

theorem cleanup_marks_due_alerts:
  "fst (cleanup_expired_alerts db now) = length (filter (expiry_due now) (alerts db))
   \<and> length (alerts (snd (cleanup_expired_alerts db now))) = length (alerts db)
   \<and> (\<forall>k < length (alerts db).
         alerts (snd (cleanup_expired_alerts db now)) ! k =
           (if status (alerts db ! k) = ACTIVE
               \<and> (\<exists>e. expires_at (alerts db ! k) = Some e \<and> e \<le> now)
            then (alerts db ! k)\<lparr>is_expired := True\<rparr>
            else alerts db ! k))
   \<and> map status (alerts (snd (cleanup_expired_alerts db now))) = map status (alerts db)
   \<and> (snd (cleanup_expired_alerts db now))\<lparr>alerts := alerts db\<rparr> = db
   \<and> snd (cleanup_expired_alerts (snd (cleanup_expired_alerts db now)) now)
        = snd (cleanup_expired_alerts db now)"
proof (intro conjI allI impI)
  show "fst (cleanup_expired_alerts db now) = length (filter (expiry_due now) (alerts db))"
    by (simp add: cleanup_expired_alerts_def)
  show "length (alerts (snd (cleanup_expired_alerts db now))) = length (alerts db)"
    by (simp add: cleanup_expired_alerts_def)
  show "map status (alerts (snd (cleanup_expired_alerts db now))) = map status (alerts db)"
    by (simp add: cleanup_expired_alerts_def o_def)
  show "(snd (cleanup_expired_alerts db now))\<lparr>alerts := alerts db\<rparr> = db"
    by (simp add: cleanup_expired_alerts_def)
  show "snd (cleanup_expired_alerts (snd (cleanup_expired_alerts db now)) now)
        = snd (cleanup_expired_alerts db now)"
    by (rule cleanup_twice)
next
  fix k assume k: "k < length (alerts db)"
  have d: "expiry_due now (alerts db ! k) =
             (status (alerts db ! k) = ACTIVE
               \<and> (\<exists>e. expires_at (alerts db ! k) = Some e \<and> e \<le> now))"
    by (simp add: expiry_due_def split: option.splits)
  show "alerts (snd (cleanup_expired_alerts db now)) ! k =
           (if status (alerts db ! k) = ACTIVE
               \<and> (\<exists>e. expires_at (alerts db ! k) = Some e \<and> e \<le> now)
            then (alerts db ! k)\<lparr>is_expired := True\<rparr>
            else alerts db ! k)"
    using cleanup_alerts_nth[OF k, of now] unfolding d .
qed

text \<open>
  The claim fails: an ACTIVE alert that expired at 10, swept at 20, is counted and keeps the
  status ACTIVE, so a second sweep at 20 matches and counts it again and returns 1, not 0.
\<close>

theorem cleanup_keeps_status_and_recounts:
  "cleanup_expired_alerts (alert_store [old_alert ACTIVE]) 20
     = (1, alert_store [(old_alert ACTIVE)\<lparr>is_expired := True\<rparr>])
   \<and> status ((old_alert ACTIVE)\<lparr>is_expired := True\<rparr>) = ACTIVE
   \<and> cleanup_expired_alerts (alert_store [(old_alert ACTIVE)\<lparr>is_expired := True\<rparr>]) 20
     = (1, alert_store [(old_alert ACTIVE)\<lparr>is_expired := True\<rparr>])"
  by (simp add: cleanup_expired_alerts_def expiry_due_def alert_store_def old_alert_def)

text \<open>The amended statement on a due alert followed by a resolved one.\<close>

theorem cleanup_marks_due_alerts_witness:
  "fst (cleanup_expired_alerts (alert_store [old_alert ACTIVE, old_alert RESOLVED]) 20) = 1
   \<and> alerts (snd (cleanup_expired_alerts (alert_store [old_alert ACTIVE, old_alert RESOLVED]) 20)) ! 0
        = (old_alert ACTIVE)\<lparr>is_expired := True\<rparr>
   \<and> alerts (snd (cleanup_expired_alerts (alert_store [old_alert ACTIVE, old_alert RESOLVED]) 20)) ! 1
        = old_alert RESOLVED
   \<and> map status (alerts (snd (cleanup_expired_alerts
                                  (alert_store [old_alert ACTIVE, old_alert RESOLVED]) 20)))
        = [ACTIVE, RESOLVED]"
proof -
  note T = cleanup_marks_due_alerts[of "alert_store [old_alert ACTIVE, old_alert RESOLVED]" 20]
  have a: "alerts (alert_store [old_alert ACTIVE, old_alert RESOLVED])
             = [old_alert ACTIVE, old_alert RESOLVED]"
    by (simp add: alert_store_def)
  have c: "fst (cleanup_expired_alerts (alert_store [old_alert ACTIVE, old_alert RESOLVED]) 20) = 1"
    using T[THEN conjunct1] by (simp add: alert_store_def expiry_due_def old_alert_def)
  note N = T[THEN conjunct2, THEN conjunct2, THEN conjunct1, THEN spec, THEN mp]
  have n0: "alerts (snd (cleanup_expired_alerts (alert_store [old_alert ACTIVE, old_alert RESOLVED]) 20)) ! 0
        = (old_alert ACTIVE)\<lparr>is_expired := True\<rparr>"
    using N[of 0] by (simp add: alert_store_def old_alert_def)
  have n1: "alerts (snd (cleanup_expired_alerts (alert_store [old_alert ACTIVE, old_alert RESOLVED]) 20)) ! 1
        = old_alert RESOLVED"
    using N[of 1] by (simp add: alert_store_def old_alert_def)
  have s: "map status (alerts (snd (cleanup_expired_alerts
                                  (alert_store [old_alert ACTIVE, old_alert RESOLVED]) 20)))
        = [ACTIVE, RESOLVED]"
    using T[THEN conjunct2, THEN conjunct2, THEN conjunct2, THEN conjunct1]
    by (simp add: alert_store_def old_alert_def)
  show ?thesis by (intro conjI c n0 n1 s)
qed

section \<open>SalesLogger (app/services/sales\_logger.py)\<close>

text \<open>Python's \<^verbatim>\<open>str\<close> of an integer, for \<^verbatim>\<open>reference_id=str(sale.id)\<close>.\<close>

function str_nat :: "nat \<Rightarrow> string" where
  "str_nat n = (if n < 10 then [''0123456789'' ! n]
                else str_nat (n div 10) @ [''0123456789'' ! (n mod 10)])"
  by pat_completeness auto
termination
  by (relation "measure id") auto

declare str_nat.simps [simp del]

definition str_int :: "int \<Rightarrow> string" where
  "str_int i = (if i < 0 then CHR ''-'' # str_nat (nat (- i)) else str_nat (nat i))"

lemma str_int_example: "str_int 1 = ''1'' \<and> str_int 42 = ''42'' \<and> str_int (- 7) = ''-7''"
  by (simp add: str_int_def str_nat.simps)

text \<open>
  The \<^verbatim>\<open>sale_data\<close> dictionary and its items, with the keys \<^verbatim>\<open>record_sale\<close> reads. A
  dictionary without an \<^verbatim>\<open>items\<close> key reads as one with the empty list
  (\<^verbatim>\<open>sale_data.get('items', [])\<close>); the payment method is the string the caller sent.
\<close>

record SaleItemRequest =
  item_product_id :: int
  item_quantity :: int
  item_unit_price :: rat

record SaleRequest =
  req_cashier_id :: string
  req_customer_id :: "string option"
  req_payment_method :: string
  req_items :: "SaleItemRequest list"
  req_subtotal :: rat
  req_tax_amount :: rat
  req_discount_amount :: rat
  req_total_amount :: rat
  req_notes :: "string option"

text \<open>The dictionary \<^verbatim>\<open>record_sale\<close> returns.\<close>

record SaleResult =
  sr_transaction_id :: string
  sr_sale_id :: int
  sr_status :: string
  sr_total_amount :: rat
  sr_items_count :: nat

text \<open>\<^verbatim>\<open>PaymentMethod(sale_data['payment_method'])\<close>: the enum member by value, or a \<^verbatim>\<open>ValueError\<close>.\<close>

definition payment_method_of :: "string \<Rightarrow> PaymentMethod option" where
  "payment_method_of s =
     (if s = ''cash'' then Some CASH else if s = ''card'' then Some CARD
      else if s = ''mobile'' then Some MOBILE else if s = ''other'' then Some OTHER else None)"

text \<open>
  \<^verbatim>\<open>_validate_inventory\<close> (lines 130-148): for each item in order, the product must exist
  and be tracked; then, only when the product has inventory rows
  (\<^verbatim>\<open>if inventory_level.inventory_levels and ...\<close>), the first of them must hold at least the
  requested quantity.
\<close>

definition get_tracked_product :: "database \<Rightarrow> int \<Rightarrow> Product option" where
  "get_tracked_product db product_id =
     find (\<lambda>p. p_id p = product_id \<and> is_tracked p) (products db)"

definition first_inventory_level :: "database \<Rightarrow> Product \<Rightarrow> InventoryLevel option" where
  "first_inventory_level db product =
     find (\<lambda>l. il_product_id l = p_id product) (inventory_levels db)"

fun validate_inventory :: "database \<Rightarrow> SaleItemRequest list \<Rightarrow> error + unit" where
  "validate_inventory db [] = Inr ()"
| "validate_inventory db (item # items) =
     (case get_tracked_product db (item_product_id item) of
        None \<Rightarrow> Inl (ProductNotFoundOrNotTracked (item_product_id item))
      | Some product \<Rightarrow>
          (case first_inventory_level db product of
             Some l \<Rightarrow>
               if available_quantity l < item_quantity item
               then Inl (InsufficientStock (item_product_id item))
               else validate_inventory db items
           | None \<Rightarrow> validate_inventory db items))"


text \<open>
  The loop of \<^verbatim>\<open>record_sale\<close> (lines 80-106): per item the product lookup (a missing
  product raises), the \<^verbatim>\<open>SaleItem\<close> with the product's name and sku, and
  \<^verbatim>\<open>update_stock_level\<close> with the negated quantity, type SALE and reference type
  \<^verbatim>\<open>"sale"\<close>, on the same session. A raise leaves the loop with the session as it is at
  that point, which the result carries: the items added so far are in it
  (\<^verbatim>\<open>update_stock_level\<close> raises only at its product lookup, before it writes).
\<close>

fun add_sale_items ::
  "database \<Rightarrow> Sale \<Rightarrow> SaleItemRequest list \<Rightarrow> int \<Rightarrow> (error + SaleItem list) \<times> database" where
  "add_sale_items db sale [] now = (Inr [], db)"
| "add_sale_items db sale (item_data # items) now =
     (case get_product db (item_product_id item_data) of
        None \<Rightarrow> (Inl (ProductNotFound (item_product_id item_data)), db)
      | Some product \<Rightarrow>
          let sale_item = \<lparr> si_id = next_id (map si_id (sale_items db)), si_sale_id = s_id sale,
                            si_product_id = item_product_id item_data,
                            product_name = p_name product, si_sku = p_sku product,
                            si_quantity = item_quantity item_data,
                            unit_price = item_unit_price item_data,
                            total_price = of_int (item_quantity item_data) * item_unit_price item_data \<rparr>;
              db1 = db\<lparr>sale_items := sale_items db @ [sale_item]\<rparr>
          in (case update_stock_level db1 (item_product_id item_data) (- item_quantity item_data)
                     SALE (Some (str_int (s_id sale))) (Some ''sale'') None None ''main'' now of
                Inl e \<Rightarrow> (Inl e, db1)
              | Inr (db2, r) \<Rightarrow>
                  (case add_sale_items db2 sale items now of
                     (Inl e, db3) \<Rightarrow> (Inl e, db3)
                   | (Inr rest, db3) \<Rightarrow> (Inr (sale_item # rest), db3))))"

text \<open>
  Modelled from the spec: the session that \<^verbatim>\<open>get_db_context\<close> of \<^verbatim>\<open>app/core/database.py\<close>
  yields; that module is not among the sources. A session works on a pending state of the
  stored database: \<^verbatim>\<open>db.add\<close>, \<^verbatim>\<open>db.flush\<close> and the writes to loaded rows change the
  pending state only, \<^verbatim>\<open>db.commit()\<close> stores it, and a rollback drops it. This is what the
  specification's "either fully commits or fully fails" (sections 4.4 and 7) asks of the
  storage; where a block commits, and what it has written by then, is the source's.
\<close>

record Session =
  stored :: database
  pending :: database

definition new_session :: "database \<Rightarrow> Session" where
  "new_session db = \<lparr> stored = db, pending = db \<rparr>"

definition commit :: "Session \<Rightarrow> Session" where
  "commit s = s\<lparr>stored := pending s\<rparr>"

definition rollback :: "Session \<Rightarrow> Session" where
  "rollback s = s\<lparr>pending := stored s\<rparr>"

text \<open>
  The body of the \<^verbatim>\<open>with get_db_context() as db\<close> block of \<^verbatim>\<open>record_sale\<close> (lines 60-124)
  on a session: the \<^verbatim>\<open>Sale\<close> row, the loop, \<^verbatim>\<open>db.commit()\<close> (line 108, the only commit of
  the block, after the loop), the result. A raise leaves the block with the session as it is
  then. The steps after \<^verbatim>\<open>db.commit()\<close> write a cache entry (failures swallowed by the
  cache manager) and a log line.
\<close>

definition record_sale_transaction ::
  "SaleRequest \<Rightarrow> string \<Rightarrow> int \<Rightarrow> Session \<Rightarrow> (error + SaleResult) \<times> Session" where
  "record_sale_transaction sale_data txn_id now s =
     (case payment_method_of (req_payment_method sale_data) of
        None \<Rightarrow> (Inl (InvalidPaymentMethod (req_payment_method sale_data)), s)
      | Some pm \<Rightarrow>
          let db = pending s;
              sale = \<lparr> s_id = next_id (map s_id (sales db)), transaction_id = txn_id,
                       cashier_id = req_cashier_id sale_data,
                       customer_id = req_customer_id sale_data, payment_method = pm,
                       subtotal = req_subtotal sale_data, tax_amount = req_tax_amount sale_data,
                       discount_amount = req_discount_amount sale_data,
                       total_amount = req_total_amount sale_data, s_created_at = now,
                       completed_at = Some now, s_status = ''completed'',
                       s_notes = req_notes sale_data \<rparr>;
              db1 = db\<lparr>sales := sales db @ [sale]\<rparr>
          in (case add_sale_items db1 sale (req_items sale_data) now of
                (Inl e, db2) \<Rightarrow> (Inl e, s\<lparr>pending := db2\<rparr>)
              | (Inr added, db2) \<Rightarrow>
                  (Inr \<lparr> sr_transaction_id = txn_id, sr_sale_id = s_id sale,
                         sr_status = ''completed'', sr_total_amount = total_amount sale,
                         sr_items_count = length added \<rparr>,
                   commit (s\<lparr>pending := db2\<rparr>))))"

text \<open>
  Modelled from the spec: \<^verbatim>\<open>get_db_context\<close> of \<^verbatim>\<open>app/core/database.py\<close>, which is not
  among the sources. It opens a session on the stored database and runs the block with
  it; a block that raises has its session rolled back, and the exception goes on to the
  caller. What is stored afterwards is what the block committed.
\<close>

definition get_db_context ::
  "database \<Rightarrow> (Session \<Rightarrow> (error + 'a) \<times> Session) \<Rightarrow> (error + 'a) \<times> database" where
  "get_db_context db block =
     (case block (new_session db) of
        (Inl e, s) \<Rightarrow> (Inl e, stored (rollback s))
      | (Inr r, s) \<Rightarrow> (Inr r, stored s))"

text \<open>
  \<^verbatim>\<open>record_sale\<close> (lines 28-128): the empty item list is refused, then the inventory check
  (in a session of its own, reading only), then the recording block. \<open>txn_id\<close> is the
  transaction identifier the call draws from the clock and a random UUID.
\<close>

definition record_sale ::
  "database \<Rightarrow> SaleRequest \<Rightarrow> string \<Rightarrow> int \<Rightarrow> (error + SaleResult) \<times> database" where
  "record_sale db sale_data txn_id now =
     (if req_items sale_data = [] then (Inl SaleHasNoItems, db)
      else case validate_inventory db (req_items sale_data) of
             Inl e \<Rightarrow> (Inl e, db)
           | Inr _ \<Rightarrow> get_db_context db (record_sale_transaction sale_data txn_id now))"

subsection \<open>What a recorded sale holds\<close>

text \<open>
  What a recorded sale item and a recorded stock movement say: the sale, product and
  quantity of the item; the product, signed quantity, type and reference type of the
  movement; and that the movement's new quantity is its previous quantity plus the delta,
  clamped at zero.
\<close>

definition item_summary :: "SaleItem \<Rightarrow> int \<times> int \<times> int" where
  "item_summary i = (si_sale_id i, si_product_id i, si_quantity i)"

definition movement_summary :: "StockMovement \<Rightarrow> int \<times> int \<times> StockMovementType \<times> string option" where
  "movement_summary m = (sm_product_id m, sm_quantity m, movement_type m, reference_type m)"

definition clamped_movement :: "StockMovement \<Rightarrow> bool" where
  "clamped_movement m = (new_quantity m = max 0 (previous_quantity m + sm_quantity m))"

text \<open>
  The current quantity the database holds for a product at the main location, where sales
  are booked; a product without a row there has none in stock.
\<close>

definition stored_quantity :: "database \<Rightarrow> int \<Rightarrow> int" where
  "stored_quantity db product_id =
     (case get_inventory_level db product_id ''main'' of
        Some l \<Rightarrow> current_quantity l
      | None \<Rightarrow> 0)"

text \<open>
  The decremented inventory in the words of the specification (sections 4.1 and 4.4): each
  line item in turn takes its quantity off the current quantity of its product, clamped at
  zero. \<open>decrement_all\<close> gives the quantities after all line items, \<open>movement_quantities\<close>
  the previous and the new quantity of each step.
\<close>

fun decrement_all :: "(int \<Rightarrow> int) \<Rightarrow> SaleItemRequest list \<Rightarrow> int \<Rightarrow> int" where
  "decrement_all quantity [] = quantity"
| "decrement_all quantity (i # items) =
     decrement_all
       (quantity(item_product_id i := max 0 (quantity (item_product_id i) - item_quantity i)))
       items"

fun movement_quantities :: "(int \<Rightarrow> int) \<Rightarrow> SaleItemRequest list \<Rightarrow> (int \<times> int) list" where
  "movement_quantities quantity [] = []"
| "movement_quantities quantity (i # items) =
     (quantity (item_product_id i), max 0 (quantity (item_product_id i) - item_quantity i))
       # movement_quantities
           (quantity(item_product_id i := max 0 (quantity (item_product_id i) - item_quantity i)))
           items"

lemma find_update_first_other:
  "\<not> Q y \<Longrightarrow> (\<And>x. P x \<Longrightarrow> \<not> Q x) \<Longrightarrow> find Q (update_first P (\<lambda>_. y) xs) = find Q xs"
  by (induction xs) auto

lemma find_append_other: "\<not> Q y \<Longrightarrow> find Q (xs @ [y]) = find Q xs"
  by (induction xs) auto

lemma find_levels_before_other:
  "p \<noteq> pid \<Longrightarrow> find (level_matches p loc) (levels_before db pid loc) = get_inventory_level db p loc"
  by (simp add: levels_before_def get_inventory_level_def find_append_other
        new_inventory_level_def level_matches_def split: option.splits)

lemma stored_quantity_level_before:
  "stored_quantity db pid = current_quantity (level_before db pid ''main'')"
  by (simp add: stored_quantity_def level_before_def new_inventory_level_def split: option.splits)

text \<open>One stock update at the main location: the movement it logs and the quantities it stores.\<close>

lemma update_stock_level_movement:
  assumes "get_product db pid = Some product"
  shows "\<exists>db' r m. update_stock_level db pid q mt ri rt u n ''main'' now = Inr (db', r)
           \<and> products db' = products db \<and> sales db' = sales db
           \<and> sale_items db' = sale_items db
           \<and> stock_movements db' = stock_movements db @ [m]
           \<and> movement_summary m = (pid, q, mt, rt) \<and> clamped_movement m
           \<and> previous_quantity m = stored_quantity db pid
           \<and> new_quantity m = max 0 (stored_quantity db pid + q)
           \<and> stored_quantity db' = (stored_quantity db)(pid := max 0 (stored_quantity db pid + q))
           \<and> get_inventory_level db' pid ''main'' \<noteq> None
           \<and> (\<forall>p. get_inventory_level db p ''main'' \<noteq> None
                  \<longrightarrow> get_inventory_level db' p ''main'' \<noteq> None)"
proof -
  let ?l = "update_quantities (level_before db pid ''main'') q"
  let ?rows = "update_first (level_matches pid ''main'') (\<lambda>_. ?l) (levels_before db pid ''main'')"
  have m: "level_matches pid ''main'' ?l"
    using level_before_matches[of pid "''main''" db]
    by (simp add: level_matches_def update_quantities_key)
  have same: "find (level_matches pid ''main'') ?rows = Some ?l"
    using find_update_first[of "level_matches pid ''main''" ?l "levels_before db pid ''main''"] m
    by (simp add: find_levels_before)
  have other: "find (level_matches p ''main'') ?rows = get_inventory_level db p ''main''"
    if "p \<noteq> pid" for p
  proof -
    have a: "\<not> level_matches p ''main'' ?l"
      using m that by (simp add: level_matches_def)
    have b: "\<And>x. level_matches pid ''main'' x \<Longrightarrow> \<not> level_matches p ''main'' x"
      using that by (simp add: level_matches_def)
    show ?thesis
      using find_update_first_other[of "level_matches p ''main''" ?l "level_matches pid ''main''"
              "levels_before db pid ''main''", OF a b]
      by (simp add: find_levels_before_other[OF that])
  qed
  let ?db' = "check_stock_alerts
                (db\<lparr>inventory_levels := ?rows,
                    stock_movements := stock_movements db @
                      [\<lparr> sm_id = next_id (map sm_id (stock_movements db)),
                         sm_product_id = pid, movement_type = mt, sm_quantity = q,
                         previous_quantity = current_quantity (level_before db pid ''main''),
                         new_quantity = current_quantity ?l,
                         reference_id = ri, reference_type = rt, sm_user_id = u,
                         sm_notes = n, sm_location_id = ''main'', sm_created_at = now \<rparr>]\<rparr>)
                product ?l (available_quantity (level_before db pid ''main'')) now"
  have gl: "get_inventory_level ?db' p ''main''
              = (if p = pid then Some ?l else get_inventory_level db p ''main'')" for p
    using same other[of p] by (simp add: get_inventory_level_def check_stock_alerts_frame)
  have lb: "current_quantity (level_before db pid ''main'') = stored_quantity db pid"
    by (simp add: stored_quantity_level_before)
  have sq: "stored_quantity ?db' = (stored_quantity db)(pid := max 0 (stored_quantity db pid + q))"
  proof (rule ext)
    fix p
    show "stored_quantity ?db' p
            = ((stored_quantity db)(pid := max 0 (stored_quantity db pid + q))) p"
    proof (cases "p = pid")
      case True
      have "stored_quantity ?db' pid = current_quantity ?l"
        unfolding stored_quantity_def gl by simp
      then show ?thesis using True by (simp add: update_quantities_current lb)
    next
      case False
      have "stored_quantity ?db' p = stored_quantity db p"
        unfolding stored_quantity_def gl using False by simp
      then show ?thesis using False by simp
    qed
  qed
  have row: "get_inventory_level ?db' pid ''main'' \<noteq> None"
    unfolding gl by simp
  have keep: "\<forall>p. get_inventory_level db p ''main'' \<noteq> None
                  \<longrightarrow> get_inventory_level ?db' p ''main'' \<noteq> None"
    unfolding gl by simp
  show ?thesis
    unfolding update_stock_level_eq[OF assms]
    using sq row keep
    by (simp add: check_stock_alerts_frame movement_summary_def clamped_movement_def
          update_quantities_current lb)
qed

text \<open>The loop, when it ends without a raise.\<close>

lemma add_sale_items_effect:
  assumes "add_sale_items db sale items now = (Inr added, db')"
  shows "products db' = products db \<and> sales db' = sales db
         \<and> sale_items db' = sale_items db @ added
         \<and> map item_summary added
              = map (\<lambda>i. (s_id sale, item_product_id i, item_quantity i)) items
         \<and> (\<exists>ms. stock_movements db' = stock_movements db @ ms
               \<and> map movement_summary ms
                    = map (\<lambda>i. (item_product_id i, - item_quantity i, SALE, Some ''sale'')) items
               \<and> list_all clamped_movement ms
               \<and> map (\<lambda>m. (previous_quantity m, new_quantity m)) ms
                    = movement_quantities (stored_quantity db) items)
         \<and> stored_quantity db' = decrement_all (stored_quantity db) items
         \<and> (\<forall>p. get_inventory_level db p ''main'' \<noteq> None
                  \<longrightarrow> get_inventory_level db' p ''main'' \<noteq> None)
         \<and> (\<forall>i \<in> set items. get_inventory_level db' (item_product_id i) ''main'' \<noteq> None)"
  using assms
proof (induction items arbitrary: db db' added)
  case Nil
  then show ?case by simp
next
  case (Cons item items)
  obtain product where p: "get_product db (item_product_id item) = Some product"
    using Cons.prems by (cases "get_product db (item_product_id item)") auto
  let ?si = "\<lparr> si_id = next_id (map si_id (sale_items db)), si_sale_id = s_id sale,
                 si_product_id = item_product_id item,
                 product_name = p_name product, si_sku = p_sku product,
                 si_quantity = item_quantity item,
                 unit_price = item_unit_price item,
                 total_price = of_int (item_quantity item) * item_unit_price item \<rparr>"
  let ?db1 = "db\<lparr>sale_items := sale_items db @ [?si]\<rparr>"
  let ?q1 = "(stored_quantity db)
               (item_product_id item := max 0 (stored_quantity db (item_product_id item) - item_quantity item))"
  have p1: "get_product ?db1 (item_product_id item) = Some product"
    using p by (simp add: get_product_def)
  have s1: "stored_quantity ?db1 = stored_quantity db"
    by (rule ext) (simp add: stored_quantity_def get_inventory_level_def)
  have g1: "get_inventory_level ?db1 x ''main'' = get_inventory_level db x ''main''" for x
    by (simp add: get_inventory_level_def)
  obtain db2 r m where
    u: "update_stock_level ?db1 (item_product_id item) (- item_quantity item) SALE
          (Some (str_int (s_id sale))) (Some ''sale'') None None ''main'' now = Inr (db2, r)"
    and f: "products db2 = products ?db1" "sales db2 = sales ?db1" "sale_items db2 = sale_items ?db1"
    and sm: "stock_movements db2 = stock_movements ?db1 @ [m]"
    and ms: "movement_summary m = (item_product_id item, - item_quantity item, SALE, Some ''sale'')"
    and cl: "clamped_movement m"
    and pq: "previous_quantity m = stored_quantity ?db1 (item_product_id item)"
    and nq: "new_quantity m = max 0 (stored_quantity ?db1 (item_product_id item) + - item_quantity item)"
    and sq: "stored_quantity db2 = (stored_quantity ?db1)
               (item_product_id item :=
                  max 0 (stored_quantity ?db1 (item_product_id item) + - item_quantity item))"
    and row: "get_inventory_level db2 (item_product_id item) ''main'' \<noteq> None"
    and keep: "\<forall>x. get_inventory_level ?db1 x ''main'' \<noteq> None
                  \<longrightarrow> get_inventory_level db2 x ''main'' \<noteq> None"
    using update_stock_level_movement[OF p1, of "- item_quantity item" SALE
            "Some (str_int (s_id sale))" "Some ''sale''" None None now]
    by (elim exE conjE)
  have sq': "stored_quantity db2 = ?q1" using sq unfolding s1 by simp
  obtain rest where
    r: "add_sale_items db2 sale items now = (Inr rest, db')" and a: "added = ?si # rest"
    using Cons.prems p u
    by (auto simp: Let_def split: sum.splits prod.splits)
  note IH = Cons.IH[OF r]
  obtain ms' where
    m': "stock_movements db' = stock_movements db2 @ ms'"
    and s': "map movement_summary ms'
               = map (\<lambda>i. (item_product_id i, - item_quantity i, SALE, Some ''sale'')) items"
    and c': "list_all clamped_movement ms'"
    and q': "map (\<lambda>m. (previous_quantity m, new_quantity m)) ms'
               = movement_quantities (stored_quantity db2) items"
    using IH by (elim exE conjE)
  have k': "\<forall>x. get_inventory_level db2 x ''main'' \<noteq> None
                  \<longrightarrow> get_inventory_level db' x ''main'' \<noteq> None"
    using IH by (elim conjE)
  have r': "\<forall>i \<in> set items. get_inventory_level db' (item_product_id i) ''main'' \<noteq> None"
    using IH by (elim conjE)
  have d': "stored_quantity db' = decrement_all (stored_quantity db2) items"
    using IH by (elim conjE)
  have e1: "products db' = products db" using IH f by simp
  have e2: "sales db' = sales db" using IH f by simp
  have e3: "sale_items db' = sale_items db @ added" using IH f a by simp
  have e4: "map item_summary added
              = map (\<lambda>i. (s_id sale, item_product_id i, item_quantity i)) (item # items)"
  proof -
    have i4: "map item_summary rest
                = map (\<lambda>i. (s_id sale, item_product_id i, item_quantity i)) items"
      using IH by (elim conjE)
    have h: "item_summary ?si = (s_id sale, item_product_id item, item_quantity item)"
      by (simp add: item_summary_def)
    show ?thesis using i4 h unfolding a by simp
  qed
  have e5: "stock_movements db' = stock_movements db @ (m # ms')" using m' sm by simp
  have e6: "map movement_summary (m # ms')
              = map (\<lambda>i. (item_product_id i, - item_quantity i, SALE, Some ''sale'')) (item # items)"
    using ms s' by simp
  have e7: "list_all clamped_movement (m # ms')" using cl c' by simp
  have e8: "map (\<lambda>m. (previous_quantity m, new_quantity m)) (m # ms')
              = movement_quantities (stored_quantity db) (item # items)"
    using pq nq q' unfolding sq' s1 by simp
  have e9: "stored_quantity db' = decrement_all (stored_quantity db) (item # items)"
    using d' unfolding sq' by simp
  have e10: "\<forall>x. get_inventory_level db x ''main'' \<noteq> None
                  \<longrightarrow> get_inventory_level db' x ''main'' \<noteq> None"
    using keep k' unfolding g1 by blast
  have e11: "\<forall>i \<in> set (item # items). get_inventory_level db' (item_product_id i) ''main'' \<noteq> None"
    using row k' r' by simp
  have ex: "\<exists>ms. stock_movements db' = stock_movements db @ ms
               \<and> map movement_summary ms
                    = map (\<lambda>i. (item_product_id i, - item_quantity i, SALE, Some ''sale''))
                        (item # items)
               \<and> list_all clamped_movement ms
               \<and> map (\<lambda>m. (previous_quantity m, new_quantity m)) ms
                    = movement_quantities (stored_quantity db) (item # items)"
    using e5 e6 e7 e8 by blast
  show ?case
    by (intro conjI e1 e2 e3 e4 ex e9 e10 e11)
qed


text \<open>The recording block: a raise comes before the commit, a return after it.\<close>

lemma record_sale_transaction_raises:
  assumes "record_sale_transaction sale_data txn_id now s = (Inl e, s')"
  shows "stored s' = stored s"
  using assms
  by (auto simp: record_sale_transaction_def Let_def commit_def
      split: option.splits prod.splits sum.splits)

lemma record_sale_transaction_effect:
  assumes "record_sale_transaction sale_data txn_id now s = (Inr res, s')"
  shows "stored s' = pending s'
         \<and> (\<exists>sale added ms.
              sales (stored s') = sales (pending s) @ [sale] \<and> s_id sale = sr_sale_id res
              \<and> transaction_id sale = txn_id \<and> products (stored s') = products (pending s)
              \<and> sale_items (stored s') = sale_items (pending s) @ added
              \<and> map item_summary added
                   = map (\<lambda>i. (s_id sale, item_product_id i, item_quantity i)) (req_items sale_data)
              \<and> stock_movements (stored s') = stock_movements (pending s) @ ms
              \<and> map movement_summary ms
                   = map (\<lambda>i. (item_product_id i, - item_quantity i, SALE, Some ''sale''))
                       (req_items sale_data)
              \<and> list_all clamped_movement ms
              \<and> map (\<lambda>m. (previous_quantity m, new_quantity m)) ms
                   = movement_quantities (stored_quantity (pending s)) (req_items sale_data)
              \<and> stored_quantity (stored s')
                   = decrement_all (stored_quantity (pending s)) (req_items sale_data)
              \<and> (\<forall>i \<in> set (req_items sale_data).
                     get_inventory_level (stored s') (item_product_id i) ''main'' \<noteq> None)
              \<and> sr_items_count res = length (req_items sale_data)
              \<and> sr_status res = ''completed'')"
proof -
  obtain pm where pm: "payment_method_of (req_payment_method sale_data) = Some pm"
    using assms by (cases "payment_method_of (req_payment_method sale_data)")
      (auto simp: record_sale_transaction_def)
  let ?db = "pending s"
  let ?sale = "\<lparr> s_id = next_id (map s_id (sales ?db)), transaction_id = txn_id,
                       cashier_id = req_cashier_id sale_data,
                       customer_id = req_customer_id sale_data, payment_method = pm,
                       subtotal = req_subtotal sale_data, tax_amount = req_tax_amount sale_data,
                       discount_amount = req_discount_amount sale_data,
                       total_amount = req_total_amount sale_data, s_created_at = now,
                       completed_at = Some now, s_status = ''completed'',
                       s_notes = req_notes sale_data \<rparr>"
  let ?db1 = "?db\<lparr>sales := sales ?db @ [?sale]\<rparr>"
  obtain added db2 where
    a: "add_sale_items ?db1 ?sale (req_items sale_data) now = (Inr added, db2)"
    and r: "res = \<lparr> sr_transaction_id = txn_id, sr_sale_id = s_id ?sale,
                     sr_status = ''completed'', sr_total_amount = total_amount ?sale,
                     sr_items_count = length added \<rparr>"
    and s': "s' = commit (s\<lparr>pending := db2\<rparr>)"
    using assms pm
    by (auto simp: record_sale_transaction_def Let_def split: sum.splits prod.splits)
  have st: "stored s' = db2" and pe: "pending s' = db2"
    using s' by (simp_all add: commit_def)
  have s1: "stored_quantity ?db1 = stored_quantity ?db"
    by (rule ext) (simp add: stored_quantity_def get_inventory_level_def)
  note E = add_sale_items_effect[OF a]
  obtain ms where
    m: "stock_movements db2 = stock_movements ?db1 @ ms"
    and s: "map movement_summary ms
              = map (\<lambda>i. (item_product_id i, - item_quantity i, SALE, Some ''sale''))
                  (req_items sale_data)"
    and c: "list_all clamped_movement ms"
    and q: "map (\<lambda>m. (previous_quantity m, new_quantity m)) ms
              = movement_quantities (stored_quantity ?db1) (req_items sale_data)"
    using E by (elim exE conjE)
  have i: "map item_summary added
             = map (\<lambda>i. (s_id ?sale, item_product_id i, item_quantity i)) (req_items sale_data)"
    using E by (elim conjE)
  have d: "stored_quantity db2 = decrement_all (stored_quantity ?db1) (req_items sale_data)"
    using E by (elim conjE)
  have rows: "\<forall>i \<in> set (req_items sale_data).
                 get_inventory_level db2 (item_product_id i) ''main'' \<noteq> None"
    using E by (elim conjE)
  have len: "length added = length (req_items sale_data)"
    using arg_cong[OF i, of length] by simp
  have e1: "sales (stored s') = sales ?db @ [?sale]" using E st by simp
  have e2: "s_id ?sale = sr_sale_id res" using r by simp
  have e3: "transaction_id ?sale = txn_id" by simp
  have e4: "products (stored s') = products ?db" using E st by simp
  have e5: "sale_items (stored s') = sale_items ?db @ added" using E st by simp
  have e6: "stock_movements (stored s') = stock_movements ?db @ ms" using m st by simp
  have e7: "sr_items_count res = length (req_items sale_data)" using r len by simp
  have e8: "map (\<lambda>m. (previous_quantity m, new_quantity m)) ms
              = movement_quantities (stored_quantity ?db) (req_items sale_data)"
    using q unfolding s1 .
  have e9: "stored_quantity (stored s')
              = decrement_all (stored_quantity ?db) (req_items sale_data)"
    using d unfolding s1 st .
  have e10: "\<forall>i \<in> set (req_items sale_data).
                 get_inventory_level (stored s') (item_product_id i) ''main'' \<noteq> None"
    using rows unfolding st .
  have e11: "sr_status res = ''completed''" using r by simp
  have e0: "stored s' = pending s'" using st pe by simp
  have "\<exists>sale added ms.
              sales (stored s') = sales (pending s) @ [sale] \<and> s_id sale = sr_sale_id res
              \<and> transaction_id sale = txn_id \<and> products (stored s') = products (pending s)
              \<and> sale_items (stored s') = sale_items (pending s) @ added
              \<and> map item_summary added
                   = map (\<lambda>i. (s_id sale, item_product_id i, item_quantity i)) (req_items sale_data)
              \<and> stock_movements (stored s') = stock_movements (pending s) @ ms
              \<and> map movement_summary ms
                   = map (\<lambda>i. (item_product_id i, - item_quantity i, SALE, Some ''sale''))
                       (req_items sale_data)
              \<and> list_all clamped_movement ms
              \<and> map (\<lambda>m. (previous_quantity m, new_quantity m)) ms
                   = movement_quantities (stored_quantity (pending s)) (req_items sale_data)
              \<and> stored_quantity (stored s')
                   = decrement_all (stored_quantity (pending s)) (req_items sale_data)
              \<and> (\<forall>i \<in> set (req_items sale_data).
                     get_inventory_level (stored s') (item_product_id i) ''main'' \<noteq> None)
              \<and> sr_items_count res = length (req_items sale_data)
              \<and> sr_status res = ''completed''"
    apply (rule exI[of _ ?sale], rule exI[of _ added], rule exI[of _ ms])
    by (intro conjI e1 e2 e3 e4 e5 i e6 s c e8 e9 e10 e7 e11)
  then show ?thesis using e0 by blast
qed



subsection \<open>What the inventory check refuses\<close>





definition sale_of :: "SaleItemRequest list \<Rightarrow> SaleRequest" where
  "sale_of items = \<lparr> req_cashier_id = ''cashier_001'', req_customer_id = None,
                      req_payment_method = ''card'', req_items = items, req_subtotal = 46,
                      req_tax_amount = 0, req_discount_amount = 0, req_total_amount = 46,
                      req_notes = None \<rparr>"

definition line :: "int \<Rightarrow> int \<Rightarrow> SaleItemRequest" where
  "line product_id quantity =
     \<lparr> item_product_id = product_id, item_quantity = quantity, item_unit_price = 10 \<rparr>"






text \<open>The definitions a concrete sale unfolds to.\<close>

lemmas sale_eval =
  shop_def widget_def sale_of_def line_def get_tracked_product_def
  first_inventory_level_def record_sale_def get_db_context_def new_session_def commit_def
  rollback_def record_sale_transaction_def payment_method_of_def get_product_def
  update_stock_level_def get_inventory_level_def level_matches_def
  new_inventory_level_def update_quantities_def check_stock_alerts_def Let_def



subsection \<open>A sale is recorded whole or not at all\<close>

text \<open>
  Claim C7. \<^verbatim>\<open>record_sale\<close> is atomic. When the call raises, the stored database is the one
  before the call: no Sale, SaleItem, StockMovement or inventory level of the call is in
  it. So it is for the recording block on any database, whatever the inventory check saw
  before: the block raises (when, say, the product of its N-th item is gone, with the sale
  and N - 1 items and their stock updates pending in its session) before it commits, so
  the session it leaves has stored nothing. When the call returns, the stored database
  holds one new Sale with the returned id, one new SaleItem per line item, and one new
  stock movement per line item, of type SALE, with the negated quantity and reference type
  \<^verbatim>\<open>"sale"\<close>; the inventory is decremented: the movements log, item by item, the
  quantity before and the quantity after, clamped at zero, every product sold has its
  inventory row, and the stored current quantities are those after all line items. The
  cache entries the call writes are not part of the database and are never read.
\<close>

theorem record_sale_all_or_nothing:
  "(\<forall>e db'. record_sale db sale_data txn_id now = (Inl e, db') \<longrightarrow> db' = db)
   \<and> (\<forall>e s. record_sale_transaction sale_data txn_id now (new_session db) = (Inl e, s) \<longrightarrow>
          stored s = db
          \<and> get_db_context db (record_sale_transaction sale_data txn_id now) = (Inl e, db))
   \<and> (\<forall>e db'. get_db_context db (record_sale_transaction sale_data txn_id now) = (Inl e, db')
          \<longrightarrow> db' = db)
   \<and> (\<forall>res db'. record_sale db sale_data txn_id now = (Inr res, db') \<longrightarrow>
         (\<exists>sale added ms.
            sales db' = sales db @ [sale] \<and> s_id sale = sr_sale_id res
            \<and> transaction_id sale = txn_id
            \<and> products db' = products db
            \<and> sale_items db' = sale_items db @ added
            \<and> map item_summary added
                 = map (\<lambda>i. (s_id sale, item_product_id i, item_quantity i)) (req_items sale_data)
            \<and> stock_movements db' = stock_movements db @ ms
            \<and> map movement_summary ms
                 = map (\<lambda>i. (item_product_id i, - item_quantity i, SALE, Some ''sale''))
                     (req_items sale_data)
            \<and> list_all clamped_movement ms
            \<and> map (\<lambda>m. (previous_quantity m, new_quantity m)) ms
                 = movement_quantities (stored_quantity db) (req_items sale_data)
            \<and> stored_quantity db' = decrement_all (stored_quantity db) (req_items sale_data)
            \<and> (\<forall>i \<in> set (req_items sale_data).
                   get_inventory_level db' (item_product_id i) ''main'' \<noteq> None)
            \<and> sr_items_count res = length (req_items sale_data)))"
proof (intro conjI allI impI)
  fix e db' assume h: "get_db_context db (record_sale_transaction sale_data txn_id now) = (Inl e, db')"
  then obtain s where b: "record_sale_transaction sale_data txn_id now (new_session db) = (Inl e, s)"
    and d: "db' = stored (rollback s)"
    by (auto simp: get_db_context_def split: prod.splits sum.splits)
  have "stored s = stored (new_session db)"
    using b by (rule record_sale_transaction_raises)
  then show "db' = db" using d by (simp add: rollback_def new_session_def)
next
  fix e db' assume h: "record_sale db sale_data txn_id now = (Inl e, db')"
  show "db' = db"
  proof (cases "req_items sale_data = []")
    case True
    then show ?thesis using h by (simp add: record_sale_def)
  next
    case False
    show ?thesis
    proof (cases "validate_inventory db (req_items sale_data)")
      case (Inl e')
      then show ?thesis using h False by (simp add: record_sale_def)
    next
      case (Inr u)
      then have g: "get_db_context db (record_sale_transaction sale_data txn_id now) = (Inl e, db')"
        using h False by (simp add: record_sale_def)
      then obtain s where
        b: "record_sale_transaction sale_data txn_id now (new_session db) = (Inl e, s)"
        and d: "db' = stored (rollback s)"
        by (auto simp: get_db_context_def split: prod.splits sum.splits)
      have "stored s = stored (new_session db)"
        using b by (rule record_sale_transaction_raises)
      then show ?thesis using d by (simp add: rollback_def new_session_def)
    qed
  qed
next
  fix e s assume b: "record_sale_transaction sale_data txn_id now (new_session db) = (Inl e, s)"
  have "stored s = stored (new_session db)"
    using b by (rule record_sale_transaction_raises)
  then show "stored s = db" by (simp add: new_session_def)
  then show "get_db_context db (record_sale_transaction sale_data txn_id now) = (Inl e, db)"
    using b by (simp add: get_db_context_def rollback_def)
next
  fix res db' assume h: "record_sale db sale_data txn_id now = (Inr res, db')"
  then obtain s' where
    b: "record_sale_transaction sale_data txn_id now (new_session db) = (Inr res, s')"
    and d: "db' = stored s'"
    by (auto simp: record_sale_def get_db_context_def split: if_splits prod.splits sum.splits)
  have pn: "pending (new_session db) = db" by (simp add: new_session_def)
  note E = record_sale_transaction_effect[OF b, unfolded pn, folded d]
  obtain sale added ms where
    e: "sales db' = sales db @ [sale]" "s_id sale = sr_sale_id res"
       "transaction_id sale = txn_id" "products db' = products db"
       "sale_items db' = sale_items db @ added"
       "map item_summary added
          = map (\<lambda>i. (s_id sale, item_product_id i, item_quantity i)) (req_items sale_data)"
       "stock_movements db' = stock_movements db @ ms"
       "map movement_summary ms
          = map (\<lambda>i. (item_product_id i, - item_quantity i, SALE, Some ''sale''))
              (req_items sale_data)"
       "list_all clamped_movement ms"
       "map (\<lambda>m. (previous_quantity m, new_quantity m)) ms
          = movement_quantities (stored_quantity db) (req_items sale_data)"
       "stored_quantity db' = decrement_all (stored_quantity db) (req_items sale_data)"
       "\<forall>i \<in> set (req_items sale_data).
           get_inventory_level db' (item_product_id i) ''main'' \<noteq> None"
       "sr_items_count res = length (req_items sale_data)"
    using E by (elim exE conjE)
  show "\<exists>sale added ms.
            sales db' = sales db @ [sale] \<and> s_id sale = sr_sale_id res
            \<and> transaction_id sale = txn_id
            \<and> products db' = products db
            \<and> sale_items db' = sale_items db @ added
            \<and> map item_summary added
                 = map (\<lambda>i. (s_id sale, item_product_id i, item_quantity i)) (req_items sale_data)
            \<and> stock_movements db' = stock_movements db @ ms
            \<and> map movement_summary ms
                 = map (\<lambda>i. (item_product_id i, - item_quantity i, SALE, Some ''sale''))
                     (req_items sale_data)
            \<and> list_all clamped_movement ms
            \<and> map (\<lambda>m. (previous_quantity m, new_quantity m)) ms
                 = movement_quantities (stored_quantity db) (req_items sale_data)
            \<and> stored_quantity db' = decrement_all (stored_quantity db) (req_items sale_data)
            \<and> (\<forall>i \<in> set (req_items sale_data).
                   get_inventory_level db' (item_product_id i) ''main'' \<noteq> None)
            \<and> sr_items_count res = length (req_items sale_data)"
    apply (rule exI[of _ sale], rule exI[of _ added], rule exI[of _ ms])
    by (intro conjI e)
qed

text \<open>
  Ten in stock. A block whose second item names a product that does not exist raises with
  one sale, one sale item, one movement and a quantity of eight pending in its session, and
  nothing of them stored; a call with a payment method outside the enumeration raises and
  leaves the database as it was; a sale of six and of three is recorded with its two items,
  its two movements (ten to four, four to one) and the stored quantity one.
\<close>

theorem record_sale_all_or_nothing_witness:
  "(\<exists>s. record_sale_transaction (sale_of [line 1 2, line 2 1]) ''TXN-1'' 0
            (new_session (shop 10 0 10)) = (Inl (ProductNotFound 2), s)
         \<and> length (sales (pending s)) = 1 \<and> length (sale_items (pending s)) = 1
         \<and> length (stock_movements (pending s)) = 1 \<and> stored_quantity (pending s) 1 = 8
         \<and> stored s = shop 10 0 10)
   \<and> get_db_context (shop 10 0 10)
         (record_sale_transaction (sale_of [line 1 2, line 2 1]) ''TXN-1'' 0)
       = (Inl (ProductNotFound 2), shop 10 0 10)
   \<and> record_sale (shop 10 0 10) ((sale_of [line 1 6])\<lparr>req_payment_method := ''cheque''\<rparr>)
         ''TXN-1'' 0
       = (Inl (InvalidPaymentMethod ''cheque''), shop 10 0 10)
   \<and> (\<exists>res db' sale added ms.
         record_sale (shop 10 0 10) (sale_of [line 1 6, line 1 3]) ''TXN-1'' 0 = (Inr res, db')
         \<and> sales db' = [sale] \<and> s_id sale = sr_sale_id res
         \<and> sale_items db' = added
         \<and> map item_summary added = [(s_id sale, 1, 6), (s_id sale, 1, 3)]
         \<and> stock_movements db' = ms
         \<and> map movement_summary ms = [(1, - 6, SALE, Some ''sale''), (1, - 3, SALE, Some ''sale'')]
         \<and> map (\<lambda>m. (previous_quantity m, new_quantity m)) ms = [(10, 4), (4, 1)]
         \<and> stored_quantity db' 1 = 1
         \<and> get_inventory_level db' 1 ''main'' \<noteq> None)"
proof -
  let ?B = "record_sale_transaction (sale_of [line 1 2, line 2 1]) ''TXN-1'' 0
              (new_session (shop 10 0 10))"
  let ?C = "record_sale (shop 10 0 10) ((sale_of [line 1 6])\<lparr>req_payment_method := ''cheque''\<rparr>)
              ''TXN-1'' 0"
  let ?R = "record_sale (shop 10 0 10) (sale_of [line 1 6, line 1 3]) ''TXN-1'' 0"
  note T = record_sale_all_or_nothing[of "shop 10 0 10" _ "''TXN-1''" 0]
  have b1: "fst ?B = Inl (ProductNotFound 2)"
    by (simp add: sale_eval)
  then have b2: "?B = (Inl (ProductNotFound 2), snd ?B)"
    by (simp add: prod_eq_iff)
  have b3: "length (sales (pending (snd ?B))) = 1 \<and> length (sale_items (pending (snd ?B))) = 1
            \<and> length (stock_movements (pending (snd ?B))) = 1
            \<and> stored_quantity (pending (snd ?B)) 1 = 8"
    by (simp add: sale_eval stored_quantity_def)
  note B = T[of "sale_of [line 1 2, line 2 1]", THEN conjunct2, THEN conjunct1,
             THEN spec, THEN spec, THEN mp, OF b2]
  have one: "\<exists>s. ?B = (Inl (ProductNotFound 2), s)
         \<and> length (sales (pending s)) = 1 \<and> length (sale_items (pending s)) = 1
         \<and> length (stock_movements (pending s)) = 1 \<and> stored_quantity (pending s) 1 = 8
         \<and> stored s = shop 10 0 10"
    apply (rule exI[of _ "snd ?B"])
    using b2 b3 B[THEN conjunct1] by simp
  have two: "get_db_context (shop 10 0 10)
         (record_sale_transaction (sale_of [line 1 2, line 2 1]) ''TXN-1'' 0)
       = (Inl (ProductNotFound 2), shop 10 0 10)"
    using B by (rule conjunct2)
  have c1: "fst ?C = Inl (InvalidPaymentMethod ''cheque'')"
    by (simp add: sale_eval)
  then have c2: "?C = (Inl (InvalidPaymentMethod ''cheque''), snd ?C)"
    by (simp add: prod_eq_iff)
  have c3: "snd ?C = shop 10 0 10"
    using T[of "(sale_of [line 1 6])\<lparr>req_payment_method := ''cheque''\<rparr>", THEN conjunct1,
            THEN spec, THEN spec, THEN mp, OF c2] .
  have three: "?C = (Inl (InvalidPaymentMethod ''cheque''), shop 10 0 10)"
    using c2 c3 by simp
  have "\<exists>res. fst ?R = Inr res"
    by (simp add: sale_eval)
  then obtain res where r1: "fst ?R = Inr res" ..
  then have r2: "?R = (Inr res, snd ?R)"
    by (simp add: prod_eq_iff)
  obtain sale added ms where
    e: "sales (snd ?R) = sales (shop 10 0 10) @ [sale]" "s_id sale = sr_sale_id res"
       "sale_items (snd ?R) = sale_items (shop 10 0 10) @ added"
       "map item_summary added
          = map (\<lambda>i. (s_id sale, item_product_id i, item_quantity i))
              (req_items (sale_of [line 1 6, line 1 3]))"
       "stock_movements (snd ?R) = stock_movements (shop 10 0 10) @ ms"
       "map movement_summary ms
          = map (\<lambda>i. (item_product_id i, - item_quantity i, SALE, Some ''sale''))
              (req_items (sale_of [line 1 6, line 1 3]))"
       "map (\<lambda>m. (previous_quantity m, new_quantity m)) ms
          = movement_quantities (stored_quantity (shop 10 0 10))
              (req_items (sale_of [line 1 6, line 1 3]))"
       "stored_quantity (snd ?R)
          = decrement_all (stored_quantity (shop 10 0 10))
              (req_items (sale_of [line 1 6, line 1 3]))"
       "\<forall>i \<in> set (req_items (sale_of [line 1 6, line 1 3])).
           get_inventory_level (snd ?R) (item_product_id i) ''main'' \<noteq> None"
    using T[of "sale_of [line 1 6, line 1 3]", THEN conjunct2, THEN conjunct2, THEN conjunct2,
            THEN spec, THEN spec, THEN mp, OF r2]
    by (elim exE conjE)
  have q0: "stored_quantity (shop 10 0 10) 1 = 10"
    by (simp add: stored_quantity_def get_inventory_level_def level_matches_def shop_def)
  have f1: "sales (snd ?R) = [sale]" using e(1) by (simp add: shop_def)
  have f2: "sale_items (snd ?R) = added" using e(3) by (simp add: shop_def)
  have f3: "map item_summary added = [(s_id sale, 1, 6), (s_id sale, 1, 3)]"
    using e(4) by (simp add: sale_of_def line_def)
  have f4: "stock_movements (snd ?R) = ms" using e(5) by (simp add: shop_def)
  have f5: "map movement_summary ms = [(1, - 6, SALE, Some ''sale''), (1, - 3, SALE, Some ''sale'')]"
    using e(6) by (simp add: sale_of_def line_def)
  have f6: "map (\<lambda>m. (previous_quantity m, new_quantity m)) ms = [(10, 4), (4, 1)]"
    using e(7) q0 by (simp add: sale_of_def line_def)
  have f7: "stored_quantity (snd ?R) 1 = 1"
    using e(8) q0 by (simp add: sale_of_def line_def)
  have f8: "get_inventory_level (snd ?R) 1 ''main'' \<noteq> None"
    using e(9) by (simp add: sale_of_def line_def)
  have four: "\<exists>res db' sale added ms.
         ?R = (Inr res, db')
         \<and> sales db' = [sale] \<and> s_id sale = sr_sale_id res
         \<and> sale_items db' = added
         \<and> map item_summary added = [(s_id sale, 1, 6), (s_id sale, 1, 3)]
         \<and> stock_movements db' = ms
         \<and> map movement_summary ms = [(1, - 6, SALE, Some ''sale''), (1, - 3, SALE, Some ''sale'')]
         \<and> map (\<lambda>m. (previous_quantity m, new_quantity m)) ms = [(10, 4), (4, 1)]
         \<and> stored_quantity db' 1 = 1
         \<and> get_inventory_level db' 1 ''main'' \<noteq> None"
    apply (rule exI[of _ res], rule exI[of _ "snd ?R"], rule exI[of _ sale])
    apply (rule exI[of _ added], rule exI[of _ ms])
    by (intro conjI r2 f1 e(2) f2 f3 f4 f5 f6 f7 f8)
  show ?thesis by (intro conjI one two three four)
qed
section \<open>Result limits at the interface (app/api/v1/endpoints)\<close>

text \<open>
  \<^verbatim>\<open>.limit(limit)\<close> keeps the first \<open>limit\<close> rows; the database refuses a negative limit.
  \<^verbatim>\<open>.order_by(desc(created_at))\<close> puts the newest row first.
\<close>

definition sql_limit :: "int \<Rightarrow> 'a list \<Rightarrow> error + 'a list" where
  "sql_limit limit rows = (if limit < 0 then Inl NegativeLimit else Inr (take (nat limit) rows))"

definition newest_first :: "('a \<Rightarrow> int) \<Rightarrow> 'a list \<Rightarrow> 'a list" where
  "newest_first created rows = sort_key (\<lambda>r. - created r) rows"

text \<open>
  \<^verbatim>\<open>AlertDispatcher.get_active_alerts\<close> (alert\_dispatcher.py, lines 156-194): the ACTIVE
  alerts, filtered by type and severity when given, newest first, limited; any exception
  gives the empty list. The rows stand for the dictionaries the source builds from them.
\<close>

definition get_active_alerts ::
  "database \<Rightarrow> AlertType option \<Rightarrow> AlertSeverity option \<Rightarrow> int \<Rightarrow> Alert list" where
  "get_active_alerts db a_type sev limit =
     (let q0 = filter (\<lambda>a. status a = ACTIVE) (alerts db);
          q1 = (case a_type of None \<Rightarrow> q0 | Some t \<Rightarrow> filter (\<lambda>a. alert_type a = t) q0);
          q2 = (case sev of None \<Rightarrow> q1 | Some s \<Rightarrow> filter (\<lambda>a. severity a = s) q1)
      in case sql_limit limit (newest_first a_created_at q2) of
           Inl e \<Rightarrow> []
         | Inr rows \<Rightarrow> rows)"

text \<open>
  \<^verbatim>\<open>InventoryMonitor.get_stock_movements\<close> (inventory\_monitor.py, lines 294-332): the
  movements joined with their product, filtered by product (\<^verbatim>\<open>if product_id:\<close> takes 0 for
  absent) and by dates when given, newest first, limited. It has no exception handler.
\<close>

definition get_stock_movements ::
  "database \<Rightarrow> int option \<Rightarrow> int option \<Rightarrow> int option \<Rightarrow> int \<Rightarrow> error + StockMovement list" where
  "get_stock_movements db product_id start_date end_date limit =
     (let q0 = filter (\<lambda>m. get_product db (sm_product_id m) \<noteq> None) (stock_movements db);
          q1 = (case product_id of
                  None \<Rightarrow> q0
                | Some i \<Rightarrow> if i = 0 then q0 else filter (\<lambda>m. sm_product_id m = i) q0);
          q2 = (case start_date of None \<Rightarrow> q1 | Some d \<Rightarrow> filter (\<lambda>m. d \<le> sm_created_at m) q1);
          q3 = (case end_date of None \<Rightarrow> q2 | Some d \<Rightarrow> filter (\<lambda>m. sm_created_at m \<le> d) q2)
      in sql_limit limit (newest_first sm_created_at q3))"

text \<open>\<^verbatim>\<open>AlertType(alert_type)\<close> and \<^verbatim>\<open>AlertSeverity(severity)\<close>: the member by value.\<close>

definition alert_type_of :: "string \<Rightarrow> AlertType option" where
  "alert_type_of s =
     (if s = ''low_stock'' then Some LOW_STOCK else if s = ''out_of_stock'' then Some OUT_OF_STOCK
      else if s = ''rush_hour'' then Some RUSH_HOUR else if s = ''high_queue'' then Some HIGH_QUEUE
      else if s = ''system_error'' then Some SYSTEM_ERROR
      else if s = ''maintenance'' then Some MAINTENANCE else None)"

definition alert_severity_of :: "string \<Rightarrow> AlertSeverity option" where
  "alert_severity_of s =
     (if s = ''low'' then Some LOW else if s = ''medium'' then Some MEDIUM
      else if s = ''high'' then Some HIGH else if s = ''critical'' then Some CRITICAL else None)"

text \<open>
  The endpoints. \<^verbatim>\<open>get_active_alerts\<close> (alerts.py, lines 26-69) converts the two filters
  (an empty string counts as absent) and passes \<open>limit\<close> on as it came;
  \<^verbatim>\<open>get_stock_movements\<close> (inventory.py, lines 100-125) first replaces a limit above 500 by
  500. Each returns the rows and their count.
\<close>

datatype http_error = Http400 string | Http500 string

definition get_active_alerts_endpoint ::
  "database \<Rightarrow> string option \<Rightarrow> string option \<Rightarrow> int \<Rightarrow> http_error + Alert list \<times> nat" where
  "get_active_alerts_endpoint db a_type sev limit =
     (case (case a_type of
              None \<Rightarrow> Inr None
            | Some s \<Rightarrow> if s = [] then Inr None
                        else (case alert_type_of s of
                                None \<Rightarrow> Inl (Http400 (''Invalid alert type: '' @ s))
                              | Some t \<Rightarrow> Inr (Some t))) of
        Inl e \<Rightarrow> Inl e
      | Inr alert_type_enum \<Rightarrow>
          (case (case sev of
                   None \<Rightarrow> Inr None
                 | Some s \<Rightarrow> if s = [] then Inr None
                             else (case alert_severity_of s of
                                     None \<Rightarrow> Inl (Http400 (''Invalid severity: '' @ s))
                                   | Some t \<Rightarrow> Inr (Some t))) of
             Inl e \<Rightarrow> Inl e
           | Inr severity_enum \<Rightarrow>
               let found = get_active_alerts db alert_type_enum severity_enum limit
               in Inr (found, length found)))"

definition get_stock_movements_endpoint ::
  "database \<Rightarrow> int option \<Rightarrow> int \<Rightarrow> http_error + StockMovement list \<times> nat" where
  "get_stock_movements_endpoint db product_id limit =
     (let limit = (if limit > 500 then 500 else limit)
      in case get_stock_movements db product_id None None limit of
           Inl e \<Rightarrow> Inl (Http500 ''Failed to get stock movements'')
         | Inr movements \<Rightarrow> Inr (movements, length movements))"

text \<open>A database of \<open>n\<close> active alerts.\<close>

definition many_alerts :: "nat \<Rightarrow> database" where
  "many_alerts n = alert_store (map (\<lambda>i. (old_alert ACTIVE)\<lparr>a_id := int i\<rparr>) [0..<n])"

text \<open>The movements endpoint never returns more than 500 rows.\<close>

lemma get_stock_movements_endpoint_capped:
  "get_stock_movements_endpoint db product_id limit = Inr (movements, n) \<Longrightarrow> n \<le> 500"
  by (auto simp: get_stock_movements_endpoint_def get_stock_movements_def sql_limit_def Let_def
        split: if_splits sum.splits)

text \<open>
  Claim C8. The claim is that every result limit is capped at 500, that of
  \<^verbatim>\<open>get_active_alerts\<close> included. The alerts endpoint has no cap: with 501 active alerts and
  \<open>limit = 1000\<close> it returns all 501, where the sibling endpoint of the stock movements
  caps (\<open>get_stock_movements_endpoint_capped\<close>).
\<close>

theorem get_active_alerts_limit_not_capped:
  "\<exists>found. get_active_alerts_endpoint (many_alerts 501) None None 1000 = Inr (found, 501)
      \<and> length found = 501"
  by (simp add: get_active_alerts_endpoint_def get_active_alerts_def sql_limit_def
        newest_first_def many_alerts_def alert_store_def old_alert_def Let_def o_def)

section \<open>Alert statistics (app/services/alert\_dispatcher.py)\<close>

text \<open>
  The names bound at module level in \<^verbatim>\<open>alert_dispatcher.py\<close>: its imports (lines 4-14, of
  \<^verbatim>\<open>sqlalchemy\<close> only \<^verbatim>\<open>and_\<close> and \<^verbatim>\<open>desc\<close>), \<^verbatim>\<open>logger\<close> and the class; and Python's builtin
  functions. A name a function body reads that is neither local, nor bound in the module,
  nor a builtin raises \<^verbatim>\<open>NameError\<close> when the read is executed.
\<close>

definition module_globals :: "string list" where
  "module_globals =
     [''asyncio'', ''logging'', ''json'', ''List'', ''Dict'', ''Any'', ''Optional'',
      ''datetime'', ''timedelta'', ''Session'', ''and_'', ''desc'', ''get_db_context'',
      ''cache_manager'', ''Alert'', ''AlertType'', ''AlertSeverity'', ''AlertStatus'',
      ''logger'', ''AlertDispatcher'']"

definition builtin_functions :: "string list" where
  "builtin_functions =
     [''abs'', ''aiter'', ''all'', ''anext'', ''any'', ''ascii'', ''bin'', ''bool'',
      ''breakpoint'', ''bytearray'', ''bytes'', ''callable'', ''chr'', ''classmethod'',
      ''compile'', ''complex'', ''delattr'', ''dict'', ''dir'', ''divmod'', ''enumerate'',
      ''eval'', ''exec'', ''filter'', ''float'', ''format'', ''frozenset'', ''getattr'',
      ''globals'', ''hasattr'', ''hash'', ''help'', ''hex'', ''id'', ''input'', ''int'',
      ''isinstance'', ''issubclass'', ''iter'', ''len'', ''list'', ''locals'', ''map'',
      ''max'', ''memoryview'', ''min'', ''next'', ''object'', ''oct'', ''open'', ''ord'',
      ''pow'', ''print'', ''property'', ''range'', ''repr'', ''reversed'', ''round'',
      ''set'', ''setattr'', ''slice'', ''sorted'', ''staticmethod'', ''str'', ''sum'',
      ''super'', ''tuple'', ''type'', ''vars'', ''zip'', ''__import__'']"

definition load_global :: "string \<Rightarrow> error + unit" where
  "load_global name =
     (if name \<in> set module_globals \<or> name \<in> set builtin_functions then Inr ()
      else Inl (NameError name))"

text \<open>The \<^verbatim>\<open>.value\<close> of the enum members, and a \<^verbatim>\<open>GROUP BY\<close> with its counts.\<close>

definition alert_type_value :: "AlertType \<Rightarrow> string" where
  "alert_type_value t =
     (case t of LOW_STOCK \<Rightarrow> ''low_stock'' | OUT_OF_STOCK \<Rightarrow> ''out_of_stock''
      | RUSH_HOUR \<Rightarrow> ''rush_hour'' | HIGH_QUEUE \<Rightarrow> ''high_queue''
      | SYSTEM_ERROR \<Rightarrow> ''system_error'' | MAINTENANCE \<Rightarrow> ''maintenance'')"

definition severity_value :: "AlertSeverity \<Rightarrow> string" where
  "severity_value s =
     (case s of LOW \<Rightarrow> ''low'' | MEDIUM \<Rightarrow> ''medium'' | HIGH \<Rightarrow> ''high''
      | CRITICAL \<Rightarrow> ''critical'')"

definition count_by :: "('a \<Rightarrow> 'k) \<Rightarrow> 'a list \<Rightarrow> ('k \<times> nat) list" where
  "count_by key rows =
     map (\<lambda>k. (k, length (filter (\<lambda>r. key r = k) rows))) (remdups (map key rows))"

text \<open>
  \<^verbatim>\<open>get_alert_statistics\<close> (lines 274-328). The first query reads the global \<^verbatim>\<open>func\<close>
  (\<^verbatim>\<open>func.count(Alert.id)\<close>) before anything is sent to the database; when the read
  succeeds the body builds the five statistics. The handler \<^verbatim>\<open>except Exception\<close> turns every
  exception of the body into the empty dictionary. The dictionary is a list of keys and
  values, empty for \<^verbatim>\<open>{}\<close>. (A \<open>days\<close> too large for \<^verbatim>\<open>timedelta\<close> raises earlier, into the
  same handler.)
\<close>

datatype stat_value = Count nat | Breakdown "(string \<times> nat) list"

definition alert_statistics_body ::
  "database \<Rightarrow> int \<Rightarrow> int \<Rightarrow> error + (string \<times> stat_value) list" where
  "alert_statistics_body db days now =
     (let start_date = now - 86400 * days
      in case load_global ''func'' of
           Inl e \<Rightarrow> Inl e
         | Inr _ \<Rightarrow>
             let recent = filter (\<lambda>a. start_date \<le> a_created_at a) (alerts db);
                 alerts_by_type = count_by alert_type recent;
                 alerts_by_severity = count_by severity recent;
                 active_alerts = length (filter (\<lambda>a. status a = ACTIVE) recent);
                 resolved_alerts = length (filter (\<lambda>a. status a = RESOLVED) recent)
             in Inr [(''total_alerts'', Count (sum_list (map snd alerts_by_type))),
                     (''active_alerts'', Count active_alerts),
                     (''resolved_alerts'', Count resolved_alerts),
                     (''by_type'',
                        Breakdown (map (\<lambda>(t, c). (alert_type_value t, c)) alerts_by_type)),
                     (''by_severity'',
                        Breakdown (map (\<lambda>(s, c). (severity_value s, c)) alerts_by_severity))])"

definition get_alert_statistics :: "database \<Rightarrow> int \<Rightarrow> int \<Rightarrow> (string \<times> stat_value) list" where
  "get_alert_statistics db days now =
     (case alert_statistics_body db days now of Inl e \<Rightarrow> [] | Inr stats \<Rightarrow> stats)"

text \<open>The endpoint (alerts.py, lines 147-168) clamps \<open>days\<close> to 365 and returns it with the statistics.\<close>

definition get_alert_statistics_endpoint ::
  "database \<Rightarrow> int \<Rightarrow> int \<Rightarrow> int \<times> (string \<times> stat_value) list" where
  "get_alert_statistics_endpoint db days now =
     (let days = (if days > 365 then 365 else days)
      in (days, get_alert_statistics db days now))"

lemma func_is_unbound: "load_global ''func'' = Inl (NameError ''func'')"
  by (simp add: load_global_def module_globals_def builtin_functions_def)

lemma imported_names_are_bound: "load_global ''and_'' = Inr () \<and> load_global ''sum'' = Inr ()"
  by (simp add: load_global_def module_globals_def builtin_functions_def)

text \<open>
  Claim C10. For every value of \<open>days\<close> (and every database and time), the body of
  \<^verbatim>\<open>get_alert_statistics\<close> raises \<^verbatim>\<open>NameError\<close> for \<^verbatim>\<open>func\<close>, which the module never binds, and
  the call returns the empty dictionary; so does the endpoint built on it.
\<close>

theorem get_alert_statistics_is_empty:
  "alert_statistics_body db days now = Inl (NameError ''func'')
   \<and> get_alert_statistics db days now = []
   \<and> snd (get_alert_statistics_endpoint db days now) = []"
  by (simp add: get_alert_statistics_def alert_statistics_body_def func_is_unbound
        get_alert_statistics_endpoint_def Let_def)

lemma get_alert_statistics_endpoint_days:
  "fst (get_alert_statistics_endpoint db days now) = min days 365"
  by (simp add: get_alert_statistics_endpoint_def Let_def)

section \<open>RushPredictor (app/services/rush\_predictor.py)\<close>

text \<open>
  A row of \<^verbatim>\<open>_get_historical_sales_data\<close> (the completed sales of the last 90 days) and the
  hourly totals \<^verbatim>\<open>_prepare_training_data\<close> (lines 123-171) groups them into, in the order
  the hours first occur, as a Python dictionary keeps them. Floats are modelled as reals.
  A time is a number of seconds since 1970-01-01 00:00 UTC, a Thursday: \<^verbatim>\<open>weekday()\<close> counts
  from Monday = 0.
\<close>

record SaleDatum =
  sd_created_at :: int
  sd_total_amount :: real
  sd_items_count :: nat

record HourlySales =
  hs_total_amount :: real
  hs_transaction_count :: nat
  hs_items_count :: nat

definition hour_key :: "int \<Rightarrow> int" where
  "hour_key t = t - t mod 3600"

definition hour_of_day :: "int \<Rightarrow> int" where
  "hour_of_day t = (t div 3600) mod 24"

definition weekday :: "int \<Rightarrow> int" where
  "weekday t = (t div 86400 + 3) mod 7"

fun add_to_hour :: "int \<Rightarrow> SaleDatum \<Rightarrow> (int \<times> HourlySales) list \<Rightarrow> (int \<times> HourlySales) list" where
  "add_to_hour k s [] =
     [(k, \<lparr> hs_total_amount = sd_total_amount s, hs_transaction_count = 1,
             hs_items_count = sd_items_count s \<rparr>)]"
| "add_to_hour k s ((k', d) # rest) =
     (if k' = k
      then (k', d\<lparr> hs_total_amount := hs_total_amount d + sd_total_amount s,
                    hs_transaction_count := hs_transaction_count d + 1,
                    hs_items_count := hs_items_count d + sd_items_count s \<rparr>) # rest
      else (k', d) # add_to_hour k s rest)"

definition hourly_sales :: "SaleDatum list \<Rightarrow> (int \<times> HourlySales) list" where
  "hourly_sales sales_data = fold (\<lambda>s acc. add_to_hour (hour_key (sd_created_at s)) s acc) sales_data []"

text \<open>
  The four calendar features (hour of day, day of week, weekend, business hour 9 to 17)
  and the training set: per hour the feature vector and the transaction count as target.
\<close>

definition time_features :: "int \<Rightarrow> real list" where
  "time_features t =
     [of_int (hour_of_day t), of_int (weekday t),
      (if weekday t \<ge> 5 then 1 else 0),
      (if 9 \<le> hour_of_day t \<and> hour_of_day t \<le> 17 then 1 else 0)]"

definition prepare_training_data :: "SaleDatum list \<Rightarrow> real list list \<times> real list" where
  "prepare_training_data sales_data =
     (let hours = hourly_sales sales_data
      in (map (\<lambda>(hour, d).
                 time_features hour @
                 [hs_total_amount d, of_nat (hs_transaction_count d), of_nat (hs_items_count d),
                  (if hs_transaction_count d > 0
                   then hs_total_amount d / of_nat (hs_transaction_count d) else 0)]) hours,
          map (\<lambda>(hour, d). of_nat (hs_transaction_count d)) hours))"

text \<open>
  The fitted regressor and scaler are values of the scikit-learn library: a model is its
  prediction function and, when it has them, its member estimators; a scaler is its
  transform. \<open>fit\<close> below stands for the split, the scaling and the forest's \<^verbatim>\<open>fit\<close>.
\<close>

record Model =
  predict :: "real list \<Rightarrow> real"
  estimators :: "(real list \<Rightarrow> real) list option"

record RushPredictor =
  rush_model :: "Model option"
  scaler :: "(real list \<Rightarrow> real list) option"
  model_version :: string

text \<open>
  \<^verbatim>\<open>__init__\<close> and \<^verbatim>\<open>_load_or_train_model\<close> (lines 31-53): the saved model when the file
  \<^verbatim>\<open>models/rush_predictor.pkl\<close> loads, and otherwise no model: the fallback
  \<^verbatim>\<open>self._train_model()\<close> calls a coroutine function without awaiting it, which runs nothing.
\<close>

definition new_RushPredictor ::
  "(Model \<times> (real list \<Rightarrow> real list) option \<times> string) option \<Rightarrow> RushPredictor" where
  "new_RushPredictor saved =
     (case saved of
        Some (m, sc, version) \<Rightarrow> \<lparr> rush_model = Some m, scaler = sc, model_version = version \<rparr>
      | None \<Rightarrow> \<lparr> rush_model = None, scaler = None, model_version = ''1.0'' \<rparr>)"

text \<open>
  \<^verbatim>\<open>_train_model\<close> (lines 55-100): fewer than 100 data points, or no feature vector, end the
  training with a warning and leave the predictor as it is; otherwise the fitted model and
  scaler replace the old ones.
\<close>

definition train_model ::
  "(real list list \<Rightarrow> real list \<Rightarrow> Model \<times> (real list \<Rightarrow> real list))
     \<Rightarrow> RushPredictor \<Rightarrow> SaleDatum list \<Rightarrow> RushPredictor" where
  "train_model fit predictor sales_data =
     (if length sales_data < 100 then predictor
      else let (features, targets) = prepare_training_data sales_data
           in if length features = 0 then predictor
              else let (m, sc) = fit features targets
                   in predictor\<lparr>rush_model := Some m, scaler := Some sc\<rparr>)"

text \<open>
  \<^verbatim>\<open>predict_rush_hours\<close> (lines 195-245) and its helpers (lines 247-376). Without a model
  the result is the empty list. Otherwise one prediction per hour of
  \<^verbatim>\<open>range(hours_ahead)\<close>; a missing scaler raises at the first use, and the handler returns
  the empty list. \<open>recent_sales_context\<close> stands for the averages
  \<^verbatim>\<open>_get_recent_sales_context\<close> reads from the database. Each prediction is also stored and
  may raise a RUSH\_HOUR alert; the list returned is what is modelled here.
\<close>

record RushPrediction =
  rp_hour :: int
  predicted_transactions :: real
  confidence :: real
  is_rush_hour :: bool
  rush_probability :: real

definition get_rush_threshold :: real where
  "get_rush_threshold = 5"

definition calculate_rush_probability :: "real \<Rightarrow> real" where
  "calculate_rush_probability predicted =
     min 1 (1 / (1 + exp (- (predicted - get_rush_threshold))))"

definition calculate_confidence :: "Model \<Rightarrow> real list \<Rightarrow> real" where
  "calculate_confidence m features =
     (case estimators m of
        Some es \<Rightarrow>
          let predictions = map (\<lambda>e. e features) es;
              mean_pred = sum_list predictions / of_nat (length predictions);
              std_pred = sqrt (sum_list (map (\<lambda>p. (p - mean_pred)\<^sup>2) predictions)
                                 / of_nat (length predictions));
              c = max 0 (1 - std_pred / (mean_pred + 1 / 1000000))
          in min 1 c
      | None \<Rightarrow> 7 / 10)"

definition create_prediction_features ::
  "(int \<Rightarrow> real \<times> real \<times> real \<times> real) \<Rightarrow> int \<Rightarrow> real list" where
  "create_prediction_features recent_sales_context prediction_time =
     (let (avg_amount, avg_transactions, avg_items, avg_transaction_value) =
            recent_sales_context prediction_time
      in time_features prediction_time
           @ [avg_amount, avg_transactions, avg_items, avg_transaction_value])"

definition predict_rush_hours ::
  "RushPredictor \<Rightarrow> (int \<Rightarrow> real \<times> real \<times> real \<times> real) \<Rightarrow> int \<Rightarrow> int \<Rightarrow> RushPrediction list" where
  "predict_rush_hours predictor recent_sales_context hours_ahead now =
     (case rush_model predictor of
        None \<Rightarrow> []
      | Some m \<Rightarrow>
          (case scaler predictor of
             None \<Rightarrow> []
           | Some sc \<Rightarrow>
               concat (map (\<lambda>i.
                 let prediction_time = now + 3600 * i;
                     features = create_prediction_features recent_sales_context prediction_time
                 in if features = [] then []
                    else let predicted = predict m (sc features)
                         in [\<lparr> rp_hour = prediction_time,
                                predicted_transactions = max 0 predicted,
                                confidence = calculate_confidence m (sc features),
                                is_rush_hour = (predicted > get_rush_threshold),
                                rush_probability = calculate_rush_probability predicted \<rparr>])
                 [0..hours_ahead - 1])))"

text \<open>
  The endpoint \<^verbatim>\<open>get_rush_hour_predictions\<close> (predictions.py, lines 16-39) replaces an
  \<open>hours_ahead\<close> above 168 by 168 before it calls the predictor.
\<close>

definition get_rush_hour_predictions_endpoint ::
  "RushPredictor \<Rightarrow> (int \<Rightarrow> real \<times> real \<times> real \<times> real) \<Rightarrow> int \<Rightarrow> int
     \<Rightarrow> RushPrediction list \<times> int \<times> string" where
  "get_rush_hour_predictions_endpoint predictor recent_sales_context hours_ahead now =
     (let hours_ahead = (if hours_ahead > 168 then 168 else hours_ahead)
      in (predict_rush_hours predictor recent_sales_context hours_ahead now, hours_ahead,
          model_version predictor))"

lemma hours_ahead_clamped:
  "get_rush_hour_predictions_endpoint predictor context 500 now
     = get_rush_hour_predictions_endpoint predictor context 168 now
   \<and> fst (snd (get_rush_hour_predictions_endpoint predictor context hours_ahead now))
       = min hours_ahead 168"
  by (simp add: get_rush_hour_predictions_endpoint_def Let_def)


text \<open>
  A sale at 10:00 on 1970-01-01, a \<open>fit\<close> that returns a constant model, a sales context
  without recent sales, and a predictor whose model was loaded from a saved file.
\<close>

definition quiet_hour :: SaleDatum where
  "quiet_hour = \<lparr> sd_created_at = 36000, sd_total_amount = 20, sd_items_count = 2 \<rparr>"

definition constant_fit ::
  "real list list \<Rightarrow> real list \<Rightarrow> Model \<times> (real list \<Rightarrow> real list)" where
  "constant_fit features targets = (\<lparr> predict = (\<lambda>x. 6), estimators = None \<rparr>, (\<lambda>x. x))"

definition no_recent_sales :: "int \<Rightarrow> real \<times> real \<times> real \<times> real" where
  "no_recent_sales prediction_time = (0, 0, 0, 0)"

definition saved_model :: Model where
  "saved_model = \<lparr> predict = (\<lambda>x. 6), estimators = None \<rparr>"

definition saved_predictor :: RushPredictor where
  "saved_predictor = new_RushPredictor (Some (saved_model, Some (\<lambda>x. x), ''1.0''))"

text \<open>
  Claim C9, as amended. The claim has too little data leave no model and the predictions
  empty whatever the predictor is; a predictor that loaded a saved model keeps it. What
  holds: with fewer than 100 historical data points, training is skipped without error and
  returns the predictor as it was, so it creates no model: a predictor built without a
  saved model stays without one, and one built from a saved model keeps that model. For a
  predictor that has no model, \<^verbatim>\<open>predict_rush_hours\<close> returns the empty list for every
  \<open>hours_ahead\<close> (and every time and sales context).
\<close>

theorem too_little_data_skips_training:
  "length sales_data < 100 \<longrightarrow>
     train_model fit predictor sales_data = predictor
     \<and> train_model fit (new_RushPredictor None) sales_data = new_RushPredictor None
     \<and> rush_model (train_model fit (new_RushPredictor None) sales_data) = None
     \<and> predict_rush_hours (train_model fit (new_RushPredictor None) sales_data)
           context hours_ahead now = []
     \<and> (rush_model predictor = None \<longrightarrow>
           rush_model (train_model fit predictor sales_data) = None
           \<and> predict_rush_hours (train_model fit predictor sales_data) context hours_ahead now = [])
     \<and> rush_model (train_model fit (new_RushPredictor (Some (m, sc, version))) sales_data)
           = Some m"
  by (simp add: train_model_def predict_rush_hours_def new_RushPredictor_def)

text \<open>
  The claim fails: with 99 data points and a model loaded from a saved file, the training
  is skipped, the model stays, and \<^verbatim>\<open>predict_rush_hours\<close> for one hour ahead returns one
  prediction, of six transactions.
\<close>

theorem saved_model_still_predicts:
  "length (replicate 99 quiet_hour) < 100
   \<and> train_model constant_fit saved_predictor (replicate 99 quiet_hour) = saved_predictor
   \<and> rush_model (train_model constant_fit saved_predictor (replicate 99 quiet_hour))
        = Some saved_model
   \<and> map predicted_transactions
        (predict_rush_hours (train_model constant_fit saved_predictor (replicate 99 quiet_hour))
           no_recent_sales 1 0) = [6]
   \<and> predict_rush_hours (train_model constant_fit saved_predictor (replicate 99 quiet_hour))
        no_recent_sales 1 0 \<noteq> []"
  by (simp add: train_model_def predict_rush_hours_def new_RushPredictor_def
        saved_predictor_def saved_model_def no_recent_sales_def
        create_prediction_features_def time_features_def Let_def)

text \<open>
  The amended statement at 99 data points and 24 hours ahead, on a predictor without a
  model and on one with the saved model.
\<close>

theorem too_little_data_skips_training_witness:
  "length (replicate 99 quiet_hour) < 100
   \<and> train_model constant_fit (new_RushPredictor None) (replicate 99 quiet_hour)
        = new_RushPredictor None
   \<and> predict_rush_hours
        (train_model constant_fit (new_RushPredictor None) (replicate 99 quiet_hour))
        no_recent_sales 24 0 = []
   \<and> rush_model (new_RushPredictor None) = None
   \<and> rush_model (train_model constant_fit (new_RushPredictor None) (replicate 99 quiet_hour))
        = None
   \<and> rush_model (train_model constant_fit saved_predictor (replicate 99 quiet_hour))
        = Some saved_model"
proof -
  have l: "length (replicate 99 quiet_hour) < 100" by simp
  have n: "rush_model (new_RushPredictor None) = None" by (simp add: new_RushPredictor_def)
  note T = too_little_data_skips_training
              [of "replicate 99 quiet_hour" constant_fit "new_RushPredictor None"
                  no_recent_sales 24 0 saved_model "Some (\<lambda>x. x)" "''1.0''", THEN mp, OF l]
  note T5 = T[THEN conjunct2, THEN conjunct2, THEN conjunct2, THEN conjunct2]
  have five: "rush_model
        (train_model constant_fit (new_RushPredictor None) (replicate 99 quiet_hour)) = None"
    using T5[THEN conjunct1, THEN mp, OF n] by (rule conjunct1)
  have six: "rush_model (train_model constant_fit saved_predictor (replicate 99 quiet_hour))
        = Some saved_model"
    using T5[THEN conjunct2] by (simp add: saved_predictor_def)
  show ?thesis
    by (intro conjI l n five six T[THEN conjunct2, THEN conjunct1]
          T[THEN conjunct2, THEN conjunct2, THEN conjunct2, THEN conjunct1])
qed

end
